theory Spec2Isabelle
  imports Main "HOL-Library.Extended_Nat" "HOL-Library.Char_ord" "HOL-Library.List_Lexorder"
begin

section \<open>JavaScript operations used by the program\<close>

text \<open>
  Strings are lists of characters, a character being a code unit below 256.
  The line feed is written \<open>NL\<close>.
\<close>

abbreviation NL :: char where
  "NL \<equiv> CHR 0x0A"

text \<open>
  The characters matched by \<open>\s\<close> in a regular expression, skipped by
  \<open>parseInt\<close> and removed by \<open>String.prototype.trim\<close>, among the code units
  below 256: tab, line feed, vertical tab, form feed, carriage return, space
  and no-break space.
\<close>

definition isWhiteSpace :: "char \<Rightarrow> bool" where
  "isWhiteSpace c = (c = CHR 0x09 \<or> c = CHR 0x0A \<or> c = CHR 0x0B \<or> c = CHR 0x0C
     \<or> c = CHR 0x0D \<or> c = CHR 0x20 \<or> c = CHR 0xA0)"

definition trim :: "string \<Rightarrow> string" where
  "trim s = rev (dropWhile isWhiteSpace (rev (dropWhile isWhiteSpace s)))"

text \<open>\<open>str.includes('/')\<close>, for a one-character needle.\<close>

definition includesChar :: "string \<Rightarrow> char \<Rightarrow> bool" where
  "includesChar s c = (c \<in> set s)"

text \<open>
  \<open>String.prototype.toUpperCase\<close> on ASCII text: the letters a to z are mapped to
  A to Z and every other character is kept.
\<close>

definition upperChar :: "char \<Rightarrow> char" where
  "upperChar c =
     (case map_of (zip ''abcdefghijklmnopqrstuvwxyz'' ''ABCDEFGHIJKLMNOPQRSTUVWXYZ'') c of
        Some u \<Rightarrow> u
      | None \<Rightarrow> c)"

definition toUpperCase :: "string \<Rightarrow> string" where
  "toUpperCase s = map upperChar s"

text \<open>
  \<open>parseInt(name)\<close> with no radix, after ECMAScript: leading white space is
  skipped, one sign is read, a prefix \<open>0x\<close> or \<open>0X\<close> selects radix 16, and the
  longest prefix of digits of the radix is the value; with no digit the result is
  \<open>NaN\<close>, here \<open>None\<close>. The result of the source is a double: it is the
  integer read as long as that is below \<open>2^53\<close> in absolute value, and rounded
  beyond. The model returns the integer read, so it is the source's function on
  the texts that denote an integer below \<open>2^53\<close> in absolute value; every
  statement below that depends on the value of a code bounds it so.
\<close>

definition radixDigit :: "nat \<Rightarrow> char \<Rightarrow> nat option" where
  "radixDigit r c = (let n = (of_char c :: nat);
       v = (if 48 \<le> n \<and> n \<le> 57 then Some (n - 48)
            else if 97 \<le> n \<and> n \<le> 122 then Some (n - 87)
            else if 65 \<le> n \<and> n \<le> 90 then Some (n - 55)
            else None)
     in case v of None \<Rightarrow> None | Some d \<Rightarrow> if d < r then Some d else None)"

definition digitsValue :: "nat \<Rightarrow> string \<Rightarrow> nat" where
  "digitsValue r ds =
     foldl (\<lambda>a c. a * r + (case radixDigit r c of None \<Rightarrow> 0 | Some d \<Rightarrow> d)) 0 ds"

definition parseInt :: "string \<Rightarrow> int option" where
  "parseInt s = (let s1 = dropWhile isWhiteSpace s;
       neg = (take 1 s1 = ''-'');
       s2 = (if take 1 s1 = ''-'' \<or> take 1 s1 = ''+'' then drop 1 s1 else s1);
       hex = (take 2 s2 = ''0x'' \<or> take 2 s2 = ''0X'');
       r = (if hex then 16 else 10);
       s3 = (if hex then drop 2 s2 else s2);
       ds = takeWhile (\<lambda>c. radixDigit r c \<noteq> None) s3
     in if ds = [] then None
        else Some (if neg then - int (digitsValue r ds) else int (digitsValue r ds)))"

text \<open>
  The string of a number, as \<open>responseCode + '...'\<close> builds it: for an integer
  below \<open>2^53\<close> in absolute value, the decimal digits, with a minus sign for a
  negative value. Beyond that bound the source prints the digits of the double,
  and from \<open>10^21\<close> on in exponent notation; the model is the source's function
  within the bound only.
\<close>

function decimal :: "nat \<Rightarrow> string" where
  "decimal n = (if n < 10 then [''0123456789'' ! n]
     else decimal (n div 10) @ [''0123456789'' ! (n mod 10)])"
  by pat_completeness auto
termination
  by (relation "measure id") auto

declare decimal.simps [simp del]

definition numberToString :: "int \<Rightarrow> string" where
  "numberToString i = (if i < 0 then CHR ''-'' # decimal (nat (- i)) else decimal (nat i))"

text \<open>
  \<open>source.match(new RegExp(responseCode + '(\\s*)'))\<close>: the pattern is the digits
  of the code followed by a greedy run of white space, and the match is the
  leftmost one. \<open>afterFirst pat s\<close> is the text of \<open>s\<close> after the leftmost
  occurrence of \<open>pat\<close>; the captured group is the white space that follows.
  \<open>None\<close> is the \<open>null\<close> of a failed match.
\<close>

fun afterFirst :: "string \<Rightarrow> string \<Rightarrow> string option" where
  "afterFirst pat [] = (if pat = [] then Some [] else None)"
| "afterFirst pat (c # cs) =
     (if take (length pat) (c # cs) = pat then Some (drop (length pat) (c # cs))
      else afterFirst pat cs)"


definition matchCodeWhitespace :: "int \<Rightarrow> string \<Rightarrow> string option" where
  "matchCodeWhitespace code source =
     map_option (takeWhile isWhiteSpace) (afterFirst (numberToString code) source)"

section \<open>Configuration (config.ts)\<close>

text \<open>
  JSON values: the examples of the configuration and the synthesized bodies.
  An object is the list of its members in the object's own key order. A number
  is an integer: the code modelled only copies, tests and prints the numbers
  it is given.
\<close>

datatype json =
    JNull
  | JBool bool
  | JNum int
  | JStr string
  | JArr "json list"
  | JObj "(string \<times> json) list"

record ConfigDefaults =
  d_number :: int
  d_string :: string
  d_boolean :: bool
  d_jsonKey :: string

text \<open>
  \<open>examples.response\<close> and \<open>examples.param\<close> are objects used as dictionaries;
  \<open>hasOwnProperty(name)\<close> is \<open>m name \<noteq> None\<close>.
\<close>

record Config =
  c_output :: string
  c_host :: "string option"
  c_title :: "string option"
  c_description :: "string option"
  c_defaults :: ConfigDefaults
  c_examples_response :: "string \<rightharpoonup> json"
  c_examples_param :: "string \<rightharpoonup> string"
  c_afterHook :: "string option"

section \<open>Comments as the comment parser returns them\<close>

text \<open>
  A tag of comment-parser, with the fields the program reads: the tag name,
  the \<open>{type}\<close> bracket (empty when absent), the name slot (empty when absent),
  the description, the line of the tag inside the comment and the tag's source
  text.
\<close>

record Tag =
  t_tag :: string
  t_name :: string
  t_type :: string
  t_description :: string
  t_line :: nat
  t_source :: string

record Comment =
  cm_description :: string
  cm_tags :: "Tag list"

section \<open>The documentation model (parser.ts)\<close>

record Param =
  p_query :: bool
  p_name :: string
  p_type :: string
  p_description :: string
  p_example :: string

text \<open>parseParam, lines 331 to 336.\<close>

definition parseParam :: "Tag \<Rightarrow> bool \<Rightarrow> Config \<Rightarrow> Param" where
  "parseParam tag query config =
     (let examples = c_examples_param config;
          example = (case examples (t_name tag) of
                       Some v \<Rightarrow> v
                     | None \<Rightarrow> d_string (c_defaults config))
      in \<lparr> p_query = query, p_name = t_name tag, p_type = t_type tag,
           p_description = t_description tag, p_example = example \<rparr>)"

text \<open>
  splitByFirstNewline, lines 382 to 389: the text before the first line feed and
  the text after it, \<open>undefined\<close> (here \<open>None\<close>) when there is no line feed.
\<close>

definition splitByFirstNewline :: "string \<Rightarrow> string \<times> string option" where
  "splitByFirstNewline str =
     (case dropWhile (\<lambda>c. c \<noteq> NL) str of
        [] \<Rightarrow> (str, None)
      | _ # rest \<Rightarrow> (takeWhile (\<lambda>c. c \<noteq> NL) str, Some rest))"

section \<open>Schemas and example synthesis (examples.ts)\<close>

text \<open>
  A schema of typescript-json-schema, with the members createSchemaExample
  reads. \<open>type\<close> is absent, a string or an array of strings; \<open>properties\<close> is
  absent or the list of properties in the order of \<open>Object.keys\<close>;
  \<open>additionalProperties\<close> is absent, a boolean or a schema; \<open>items\<close> is absent,
  a boolean, one schema or an array of schemas.
\<close>

datatype TypeField = TypeAbsent | TypeName string | TypeNames "string list"

datatype Definition =
  Definition (s_type: TypeField)
             (s_properties: "(string \<times> Definition) list option")
             (s_additionalProperties: AdditionalProperties)
             (s_items: Items)
and AdditionalProperties = AdditionalAbsent | AdditionalBool bool | AdditionalSchema Definition
and Items = ItemsAbsent | ItemsBool bool | ItemsOne Definition | ItemsMany "Definition list"

text \<open>
  What createSchemaExample throws: the error of the \<open>default\<close> branch, with the
  type it met, or the TypeError of reading \<open>type\<close> from an undefined schema.
\<close>

datatype SynthesisError = UnexpectedType TypeField | UndefinedSchema

text \<open>
  The own keys of a JavaScript object come in two runs: the array indices (the
  canonical decimal numerals below \<open>2^32 - 1\<close>) in ascending order, then the
  other strings in the order of their creation.
\<close>

definition isArrayIndex :: "string \<Rightarrow> bool" where
  "isArrayIndex k = (k \<noteq> [] \<and> list_all (\<lambda>c. c \<in> set ''0123456789'') k
     \<and> (k = ''0'' \<or> hd k \<noteq> CHR ''0'') \<and> digitsValue 10 k < 2 ^ 32 - 1)"

definition indexBefore :: "string \<Rightarrow> string \<times> json \<Rightarrow> bool" where
  "indexBefore k member =
     (isArrayIndex (fst member) \<and> digitsValue 10 (fst member) < digitsValue 10 k)"

text \<open>
  \<open>obj[k] = v\<close>: the member is replaced in place, or created: an array index
  takes its place among the indices, every other key comes last.
\<close>

definition assign :: "string \<Rightarrow> json \<Rightarrow> (string \<times> json) list \<Rightarrow> (string \<times> json) list" where
  "assign k v obj =
     (if k \<in> fst ` set obj
      then map (\<lambda>(k', v'). if k' = k then (k', v) else (k', v')) obj
      else if isArrayIndex k
      then takeWhile (indexBefore k) obj @ [(k, v)] @ dropWhile (indexBefore k) obj
      else obj @ [(k, v)])"

text \<open>
  The value the \<open>switch\<close> inspects: \<open>schema.type\<close>, or its first element when it
  is a non-empty array. \<open>None\<close> stands for a value that equals no case label
  (undefined, or the empty array).
\<close>

definition switchType :: "TypeField \<Rightarrow> string option" where
  "switchType ty = (case ty of
       TypeAbsent \<Rightarrow> None
     | TypeName n \<Rightarrow> Some n
     | TypeNames ns \<Rightarrow> (case ns of [] \<Rightarrow> None | n # _ \<Rightarrow> Some n))"

text \<open>
  \<open>name && examples.hasOwnProperty(name)\<close> with \<open>examples[name]\<close>: the override of
  the response table for a name that is given and not empty.
\<close>

definition namedExample :: "Config \<Rightarrow> string option \<Rightarrow> json option" where
  "namedExample config name = (case name of
       None \<Rightarrow> None
     | Some n \<Rightarrow> if n = [] then None else c_examples_response config n)"

text \<open>
  createSchemaExample, lines 11 to 42. \<open>exampleProperties\<close> is the \<open>reduce\<close> over
  the property names and \<open>exampleItems\<close> the \<open>map\<close> over a tuple's items; both
  stop at the first error, as the exception does.
\<close>

function createSchemaExample :: "Definition \<Rightarrow> Config \<Rightarrow> string option \<Rightarrow> SynthesisError + json"
and exampleProperties :: "(string \<times> Definition) list \<Rightarrow> Config \<Rightarrow> (string \<times> json) list
      \<Rightarrow> SynthesisError + (string \<times> json) list"
and exampleItems :: "Definition list \<Rightarrow> Config \<Rightarrow> SynthesisError + json list"
where
  "createSchemaExample (Definition ty props addl items) config name =
     (if switchType ty = Some ''object'' then
        (case exampleProperties (case props of None \<Rightarrow> [] | Some ps \<Rightarrow> ps) config [] of
           Inl e \<Rightarrow> Inl e
         | Inr res \<Rightarrow>
            (case addl of
               AdditionalSchema a \<Rightarrow>
                 (case createSchemaExample a config None of
                    Inl e \<Rightarrow> Inl e
                  | Inr v \<Rightarrow> Inr (JObj (assign (d_jsonKey (c_defaults config)) v res)))
             | _ \<Rightarrow> Inr (JObj res)))
      else if switchType ty = Some ''array'' then
        (case namedExample config name of
           Some v \<Rightarrow> Inr v
         | None \<Rightarrow>
            (case items of
               ItemsMany its \<Rightarrow> map_sum id JArr (exampleItems its config)
             | ItemsOne it \<Rightarrow> map_sum id (\<lambda>v. JArr [v]) (createSchemaExample it config None)
             | ItemsBool b \<Rightarrow> Inl (UnexpectedType TypeAbsent)
             | ItemsAbsent \<Rightarrow> Inl UndefinedSchema))
      else if switchType ty = Some ''number'' then
        (case namedExample config name of
           Some v \<Rightarrow> Inr v
         | None \<Rightarrow> Inr (JNum (d_number (c_defaults config))))
      else if switchType ty = Some ''string'' then
        (case namedExample config name of
           Some v \<Rightarrow> Inr v
         | None \<Rightarrow> Inr (JStr (d_string (c_defaults config))))
      else if switchType ty = Some ''boolean'' then
        (case namedExample config name of
           Some v \<Rightarrow> Inr v
         | None \<Rightarrow> Inr (JBool (d_boolean (c_defaults config))))
      else Inl (UnexpectedType ty))"
| "exampleProperties [] config obj = Inr obj"
| "exampleProperties ((prop, s) # ps) config obj =
     (case createSchemaExample s config (Some prop) of
        Inl e \<Rightarrow> Inl e
      | Inr v \<Rightarrow> exampleProperties ps config (assign prop v obj))"
| "exampleItems [] config = Inr []"
| "exampleItems (it # its) config =
     (case createSchemaExample it config None of
        Inl e \<Rightarrow> Inl e
      | Inr v \<Rightarrow> map_sum id (\<lambda>vs. v # vs) (exampleItems its config))"
  by pat_completeness auto
termination
  by (relation "measure (\<lambda>x. case x of
        Inl (d, _, _) \<Rightarrow> size d
      | Inr (Inl (ps, _, _)) \<Rightarrow> size_list (size_prod (\<lambda>_. 0) size) ps
      | Inr (Inr (its, _)) \<Rightarrow> size_list size its)")
     (auto split: option.splits)

section \<open>Path placeholders (emitter.ts)\<close>

text \<open>
  formatPath, lines 17 to 19: \<open>path.replace(/:([^/]+)/g, '{$1}')\<close>. Scanning from
  the left, a colon followed by at least one character other than \<open>/\<close> starts a
  match, which runs (greedily) to the next \<open>/\<close> or to the end; the match is
  replaced by its text after the colon in braces, and the scan goes on after
  it. A colon followed by \<open>/\<close> or by nothing is kept.
\<close>

function formatPath :: "string \<Rightarrow> string" where
  "formatPath [] = []"
| "formatPath (c # cs) =
     (if c = CHR '':'' \<and> takeWhile (\<lambda>x. x \<noteq> CHR ''/'') cs \<noteq> []
      then ''{'' @ takeWhile (\<lambda>x. x \<noteq> CHR ''/'') cs @ ''}''
             @ formatPath (dropWhile (\<lambda>x. x \<noteq> CHR ''/'') cs)
      else c # formatPath cs)"
  by pat_completeness auto
termination
  by (relation "measure length") (auto simp: length_dropWhile_le less_Suc_eq_le)

text \<open>
  \<open>oneColonPerSegment False p\<close>: no segment of \<open>p\<close> (the text between two
  \<open>/\<close>) holds more than one colon. The flag says whether the current segment
  has shown a colon already.
\<close>

fun oneColonPerSegment :: "bool \<Rightarrow> string \<Rightarrow> bool" where
  "oneColonPerSegment seen [] = True"
| "oneColonPerSegment seen (c # cs) =
     (if c = CHR ''/'' then oneColonPerSegment False cs
      else if c = CHR '':'' then \<not> seen \<and> oneColonPerSegment True cs
      else oneColonPerSegment seen cs)"

text \<open>\<open>noPlaceholder s\<close>: no colon of \<open>s\<close> starts a match of the pattern.\<close>

fun noPlaceholder :: "string \<Rightarrow> bool" where
  "noPlaceholder [] = True"
| "noPlaceholder (c # cs) =
     (\<not> (c = CHR '':'' \<and> takeWhile (\<lambda>x. x \<noteq> CHR ''/'') cs \<noteq> []) \<and> noPlaceholder cs)"

section \<open>Diagnostics and errors\<close>

text \<open>
  logger.ts: \<open>warn(sourceFile, node, message)\<close> and
  \<open>errLine(sourceFile, line, message)\<close> build a \<open>ts.Diagnostic\<close> and print it with
  \<open>reportDiagnostic\<close>. Of a warning the diagnostic has the category, the file,
  the start of the node, a length and the message; of an error at a line it
  has the category, the file, the start of that line
  (\<open>getPositionOfLineAndCharacter(line, 0)\<close>), the length of the line and the
  message. A call is recorded as one \<open>Diagnostic\<close>, appended to a log that is
  kept when an exception is thrown afterwards: \<open>Warn\<close> with the name of the file
  and the message (the start and the length taken from the node are not kept),
  \<open>ErrLine\<close> with the name of the file, the line and the message. A message is
  kept by its template and its arguments:
  \<^item> \<open>NonLiteralPath\<close>: Skipping router using something other than a string
    literal for defining the path
  \<^item> \<open>UndocumentedRoute m p\<close>: Ignoring undocumented route m p
  \<^item> \<open>ResponseCodeNotNumber n\<close>: Error: Response code 'n' should be a number.
  \<^item> \<open>SchemaGenerationFailed t e\<close>: Error: In generating schema for type t, e.
  \<^item> \<open>ExampleFailed e s\<close>: Error: e. Schema: s
  \<^item> \<open>BodyTypeBraces\<close>: Error: @body tag should have types surrounded in curly
    braces.
  A line is a number or \<open>Infinity\<close> (the minimum of no line at all).
\<close>

datatype Message =
    NonLiteralPath
  | UndocumentedRoute string string
  | ResponseCodeNotNumber string
  | SchemaGenerationFailed string string
  | ExampleFailed SynthesisError Definition
  | BodyTypeBraces

datatype Diagnostic =
    Warn string Message
  | ErrLine string enat Message

text \<open>
  Modelled from the spec: errors.ts, which declares the class \<open>NiceError\<close>, is not
  among the sources. It is the error of a failure that has been reported to the
  user already; the code under documentation throws it with no message and
  tests for it with \<open>instanceof\<close>. What the program throws is a \<open>NiceError\<close>, an
  \<open>Error\<close> with its message, or the TypeError of reading a member of
  \<open>undefined\<close>.
\<close>

datatype Error = NiceError | Error string | TypeError

text \<open>The log written so far, with the value returned or the exception thrown.\<close>

type_synonym 'a outcome = "Diagnostic list \<times> (Error + 'a)"

text \<open>
  The generator of typescript-json-schema: \<open>getSchemaForSymbol(type)\<close> returns a
  schema or throws; \<open>Inl\<close> carries the message of what it throws.
\<close>

type_synonym Generator = "string \<Rightarrow> string + Definition"

section \<open>Parsing a route's comment (parser.ts)\<close>

record Response =
  r_code :: int
  r_when :: "string option"
  r_type :: "string option"
  r_body :: "json option"
  r_schema :: "Definition option"

record RequestBody =
  rb_type :: "string option"
  rb_body :: "json option"
  rb_schema :: "Definition option"

record Block =
  b_method :: string
  b_path :: string
  b_title :: string
  b_description :: string
  b_params :: "Param list"
  b_responses :: "Response list"
  b_body :: "RequestBody option"

record Group =
  g_path :: string
  g_methods :: "Block list"

record Router =
  rt_path :: string
  rt_title :: string
  rt_description :: "string option"
  rt_routes :: "Group list"

record Position =
  pos_line :: enat
  pos_sourceFile :: string

text \<open>
  The two \<open>try\<close> blocks that parseResponse (lines 351 to 362) and parseBody
  (lines 426 to 437) share: the schema of the type name is generated and an
  example is synthesized from it; a failure of either is reported at the line
  of the tag and a \<open>NiceError\<close> is thrown.
\<close>

definition schemaAndExample ::
  "Position \<Rightarrow> Generator \<Rightarrow> Tag \<Rightarrow> string \<Rightarrow> Config \<Rightarrow> (Definition \<times> json) outcome" where
  "schemaAndExample position generator tag typeName config =
     (case generator typeName of
        Inl msg \<Rightarrow>
          ([ErrLine (pos_sourceFile position) (pos_line position + enat (t_line tag))
              (SchemaGenerationFailed typeName msg)], Inl NiceError)
      | Inr schema \<Rightarrow>
          (case createSchemaExample schema config None of
             Inl e \<Rightarrow>
               ([ErrLine (pos_sourceFile position) (pos_line position + enat (t_line tag))
                   (ExampleFailed e schema)], Inl NiceError)
           | Inr body \<Rightarrow> ([], Inr (schema, body))))"

text \<open>
  The description with its leading line feed added back (lines 366 to 370):
  when the white space after the response code in the tag's source holds a
  line feed, the description starts on the next line.
\<close>

definition adjustedDescription :: "int \<Rightarrow> Tag \<Rightarrow> string" where
  "adjustedDescription responseCode tag =
     (case matchCodeWhitespace responseCode (t_source tag) of
        None \<Rightarrow> t_description tag
      | Some whitespace \<Rightarrow>
          if includesChar whitespace NL then NL # t_description tag else t_description tag)"

text \<open>parseResponse, lines 341 to 380.\<close>

definition parseResponse :: "Position \<Rightarrow> Generator \<Rightarrow> Tag \<Rightarrow> Config \<Rightarrow> Response outcome" where
  "parseResponse position generator tag config =
     (case parseInt (t_name tag) of
        None \<Rightarrow>
          ([ErrLine (pos_sourceFile position) (pos_line position + enat (t_line tag))
              (ResponseCodeNotNumber (t_name tag))], Inl NiceError)
      | Some responseCode \<Rightarrow>
          (case (if t_type tag \<noteq> [] \<and> \<not> includesChar (t_type tag) (CHR ''/'')
                 then (case schemaAndExample position generator tag (t_type tag) config of
                         (ds, Inl e) \<Rightarrow> (ds, Inl e)
                       | (ds, Inr (schema, body)) \<Rightarrow> (ds, Inr (Some schema, Some body)))
                 else ([], Inr (None, None))) of
             (ds, Inl e) \<Rightarrow> (ds, Inl e)
           | (ds, Inr (schema, body)) \<Rightarrow>
               (let splitDescription = splitByFirstNewline (adjustedDescription responseCode tag)
                in (ds, Inr \<lparr>
                     r_code = responseCode,
                     r_when = (if fst splitDescription = [] then None
                               else Some (fst splitDescription)),
                     r_type = (if schema \<noteq> None then Some ''application/json''
                               else if t_type tag = [] then None else Some (t_type tag)),
                     r_body = (case snd splitDescription of
                                 None \<Rightarrow> body
                               | Some text \<Rightarrow> if text = [] then body else Some (JStr text)),
                     r_schema = schema \<rparr>))))"

text \<open>
  \<open>tag.name.match(/^{(.*)}$/)\<close>: the name is an opening brace, a text with no
  line terminator and a closing brace; the group is the text between them.
\<close>

definition matchBraces :: "string \<Rightarrow> string option" where
  "matchBraces name =
     (if 2 \<le> length name \<and> hd name = CHR ''{'' \<and> last name = CHR ''}''
         \<and> NL \<notin> set (butlast (tl name)) \<and> CHR 0x0D \<notin> set (butlast (tl name))
      then Some (butlast (tl name)) else None)"

text \<open>
  parseBody, lines 396 to 445. The content type and the type name are \<open>null\<close>
  (here \<open>None\<close>) until a bracket sets them; the bracket of the name slot is read
  after the \<open>{type}\<close> bracket and overrides it.
\<close>

definition parseBody :: "Position \<Rightarrow> Generator \<Rightarrow> Tag \<Rightarrow> Config \<Rightarrow> RequestBody outcome" where
  "parseBody position generator tag config =
     (let bodyContentType0 = (if t_type tag \<noteq> [] \<and> includesChar (t_type tag) (CHR ''/'')
                              then Some (t_type tag) else None);
          bodyTypescriptType0 = (if t_type tag \<noteq> [] \<and> \<not> includesChar (t_type tag) (CHR ''/'')
                                 then Some (t_type tag) else None)
      in if t_name tag \<noteq> [] \<and> matchBraces (t_name tag) = None
         then ([ErrLine (pos_sourceFile position) (pos_line position + enat (t_line tag))
                  BodyTypeBraces], Inl NiceError)
         else
           (let tagContent = (if t_name tag = [] then None else matchBraces (t_name tag));
                bodyContentType = (case tagContent of
                                     None \<Rightarrow> bodyContentType0
                                   | Some c \<Rightarrow> if includesChar c (CHR ''/'') then Some c
                                              else bodyContentType0);
                bodyTypescriptType = (case tagContent of
                                        None \<Rightarrow> bodyTypescriptType0
                                      | Some c \<Rightarrow> if includesChar c (CHR ''/'')
                                                 then bodyTypescriptType0 else Some c)
            in case (case bodyTypescriptType of
                       None \<Rightarrow> ([], Inr (None, None))
                     | Some ty \<Rightarrow>
                         if ty = [] then ([], Inr (None, None))
                         else (case schemaAndExample position generator tag ty config of
                                 (ds, Inl e) \<Rightarrow> (ds, Inl e)
                               | (ds, Inr (schema, body)) \<Rightarrow>
                                   (ds, Inr (Some schema, Some body)))) of
                 (ds, Inl e) \<Rightarrow> (ds, Inl e)
               | (ds, Inr (schema, body)) \<Rightarrow>
                   (ds, Inr \<lparr>
                      rb_type = bodyContentType,
                      rb_body = (if t_description tag \<noteq> [] then Some (JStr (t_description tag))
                                 else body),
                      rb_schema = schema \<rparr>)))"

text \<open>
  \<open>tags.map(t => parseResponse(pos, generator, t, emitter))\<close>: the tags are
  parsed in order and the first exception ends the loop.
\<close>

fun parseResponses :: "Position \<Rightarrow> Generator \<Rightarrow> Tag list \<Rightarrow> Config \<Rightarrow> Response list outcome" where
  "parseResponses position generator [] config = ([], Inr [])"
| "parseResponses position generator (t # ts) config =
     (case parseResponse position generator t config of
        (ds, Inl e) \<Rightarrow> (ds, Inl e)
      | (ds, Inr r) \<Rightarrow>
          (case parseResponses position generator ts config of
             (ds', Inl e) \<Rightarrow> (ds @ ds', Inl e)
           | (ds', Inr rs) \<Rightarrow> (ds @ ds', Inr (r # rs))))"


section \<open>The syntax tree and the route scanner (parser.ts)\<close>

text \<open>
  A symbol of the type checker. A \<open>ts.Symbol\<close> is an object compared by
  identity: \<open>sym_id\<close> is that identity, \<open>sym_jsDocTags\<close> the name and text of the
  tags \<open>getJsDocTags()\<close> returns, \<open>sym_documentation\<close> the text of
  \<open>getDocumentationComment\<close>.
\<close>

record Symbol =
  sym_id :: nat
  sym_jsDocTags :: "(string \<times> string option) list"
  sym_documentation :: string

datatype Argument = StringLiteral string | OtherExpression

text \<open>
  A call expression, by what the scanner asks of it and of the type checker:
  \<^item> \<open>ce_receiverSymbol\<close>: \<open>checker.getSymbolAtLocation(node.expression.getChildAt(0))\<close>;
  \<^item> \<open>ce_receiverType\<close>: \<open>checker.typeToString\<close> of the type of that symbol;
  \<^item> \<open>ce_childCount\<close>: \<open>node.expression.getChildCount()\<close>;
  \<^item> \<open>ce_memberName\<close>: the text of \<open>node.expression.getChildAt(2)\<close> when it is an
    Identifier;
  \<^item> \<open>ce_arguments\<close>: \<open>node.arguments\<close>;
  \<^item> \<open>ce_leadingComments\<close>: the leading comment ranges before the call, each
    with the line of its start and its text;
  \<^item> \<open>ce_receiverObject\<close>: the routing object the receiver evaluates to when the
    program under documentation runs. No function below reads it; it is there
    to state what the scanner does when two variables hold one object.
\<close>

record CallExpression =
  ce_receiverSymbol :: "Symbol option"
  ce_receiverType :: string
  ce_childCount :: nat
  ce_memberName :: "string option"
  ce_arguments :: "Argument list"
  ce_leadingComments :: "(nat \<times> string) list"
  ce_receiverObject :: nat

text \<open>A node with the children \<open>forEachChild\<close> visits, in order.\<close>

datatype Node = CallNode CallExpression "Node list" | OtherNode "Node list"

record SourceFile =
  sf_fileName :: string
  sf_children :: "Node list"

definition ROUTER_TYPE :: string where
  "ROUTER_TYPE = ''Router''"

definition ROUTER_METHODS :: "string list" where
  "ROUTER_METHODS = [''get'', ''post'', ''put'', ''patch'', ''delete'']"

text \<open>
  isRouterFunction, lines 186 to 210. Reading \<open>kind\<close> of the first argument of a
  call with no argument throws a TypeError.
\<close>

definition isRouterFunction :: "SourceFile \<Rightarrow> CallExpression \<Rightarrow> bool outcome" where
  "isRouterFunction sourceFile node =
     (case ce_receiverSymbol node of
        None \<Rightarrow> ([], Inr False)
      | Some symbol \<Rightarrow>
          if ce_receiverType node \<noteq> ROUTER_TYPE then ([], Inr False)
          else if ce_childCount node < 3 then ([], Inr False)
          else (case ce_memberName node of
                  None \<Rightarrow> ([], Inr False)
                | Some methodName \<Rightarrow>
                    if methodName \<notin> set ROUTER_METHODS then ([], Inr False)
                    else (case ce_arguments node of
                            [] \<Rightarrow> ([], Inl TypeError)
                          | StringLiteral p # _ \<Rightarrow> ([], Inr True)
                          | OtherExpression # _ \<Rightarrow>
                              ([Warn (sf_fileName sourceFile) NonLiteralPath], Inr False))))"

text \<open>
  The method name and the path of a call that isRouterFunction accepted.
\<close>

definition methodText :: "CallExpression \<Rightarrow> string" where
  "methodText node = (case ce_memberName node of Some m \<Rightarrow> m | None \<Rightarrow> [])"

definition pathText :: "CallExpression \<Rightarrow> string" where
  "pathText node = (case ce_arguments node of StringLiteral p # _ \<Rightarrow> p | _ \<Rightarrow> [])"

text \<open>
  \<open>Math.min(...comments.map(c => line of c.pos))\<close>, which is \<open>Infinity\<close> for no
  comment, and getPosition (lines 263 to 270) for a line number.
\<close>

definition minLine :: "(nat \<times> string) list \<Rightarrow> enat" where
  "minLine comments = foldr (\<lambda>c m. min (enat (fst c)) m) comments \<infinity>"

definition getPosition :: "SourceFile \<Rightarrow> enat \<Rightarrow> Position" where
  "getPosition sourceFile line = \<lparr> pos_line = line, pos_sourceFile = sf_fileName sourceFile \<rparr>"

text \<open>
  handleKoaRouter, lines 288 to 326. \<open>parse\<close> is comment-parser, applied to the
  concatenated text of the leading comments; the position is the least line
  of a leading comment (\<open>Infinity\<close> when there is none). The result is the
  Block, or \<open>undefined\<close> (here \<open>None\<close>) for an undocumented route.
\<close>

definition handleKoaRouter ::
  "(string \<Rightarrow> Comment list) \<Rightarrow> CallExpression \<Rightarrow> SourceFile \<Rightarrow> Generator \<Rightarrow> Config
     \<Rightarrow> Block option outcome" where
  "handleKoaRouter parse node sourceFile generator config =
     (let method = methodText node;
          path = pathText node;
          comments = ce_leadingComments node;
          pos = getPosition sourceFile (minLine comments);
          commentText = concat (map snd comments)
      in case parse commentText of
           [] \<Rightarrow> ([Warn (sf_fileName sourceFile) (UndocumentedRoute (toUpperCase method) path)],
                  Inr None)
         | comment # _ \<Rightarrow>
             (let titleDesc = splitByFirstNewline (cm_description comment);
                  title = fst titleDesc;
                  description = trim (case snd titleDesc of None \<Rightarrow> [] | Some d \<Rightarrow> d);
                  urlParams = map (\<lambda>tag. parseParam tag False config)
                                (filter (\<lambda>t. t_tag t = ''param'') (cm_tags comment));
                  queryParams = map (\<lambda>tag. parseParam tag True config)
                                  (filter (\<lambda>t. t_tag t = ''query'') (cm_tags comment));
                  params = urlParams @ queryParams
              in case parseResponses pos generator
                        (filter (\<lambda>t. t_tag t = ''response'') (cm_tags comment)) config of
                   (ds, Inl e) \<Rightarrow> (ds, Inl e)
                 | (ds, Inr responses) \<Rightarrow>
                     (let bodies = filter (\<lambda>t. t_tag t = ''body'') (cm_tags comment)
                      in if 1 < length bodies then (ds, Inl (Error ''Too many @body tags''))
                         else (case (case bodies of
                                       [] \<Rightarrow> ([], Inr None)
                                     | b # _ \<Rightarrow>
                                         (case parseBody pos generator b config of
                                            (ds', Inl e) \<Rightarrow> (ds', Inl e)
                                          | (ds', Inr rb) \<Rightarrow> (ds', Inr (Some rb)))) of
                                 (ds', Inl e) \<Rightarrow> (ds @ ds', Inl e)
                               | (ds', Inr body) \<Rightarrow>
                                   (ds @ ds', Inr (Some \<lparr>
                                      b_method = method, b_path = path, b_title = title,
                                      b_description = description, b_params = params,
                                      b_responses = responses, b_body = body \<rparr>))))))"

text \<open>
  \<open>routersToRoutes\<close>, a \<open>Map\<close> from symbols to arrays of Blocks: the entries in
  insertion order, one per key. \<open>addRoute\<close> is lines 250 to 256: the Block is
  pushed to the array of the symbol, or a new entry is set, which comes last.
\<close>

type_synonym RouterMap = "(Symbol \<times> Block list) list"

definition addRoute :: "Symbol \<Rightarrow> Block \<Rightarrow> RouterMap \<Rightarrow> RouterMap" where
  "addRoute symb route m =
     (if symb \<in> fst ` set m
      then map (\<lambda>(k, routeArray). if k = symb then (k, routeArray @ [route]) else (k, routeArray)) m
      else m @ [(symb, [route])])"

text \<open>
  lookForRoutes, lines 229 to 260, with the variables of the enclosing
  documentSourceFile as arguments. A \<open>NiceError\<close> of handleKoaRouter is caught
  and leaves the route undefined; every other exception goes on. When the
  route is undefined the function returns before it visits the children of
  the call. \<open>forEachChild\<close> visits the nodes in order and ends at the first
  exception.
\<close>

fun lookForRoutes ::
  "(string \<Rightarrow> Comment list) \<Rightarrow> SourceFile \<Rightarrow> Generator \<Rightarrow> Config \<Rightarrow> Node \<Rightarrow> RouterMap
     \<Rightarrow> RouterMap outcome"
and forEachChild ::
  "(string \<Rightarrow> Comment list) \<Rightarrow> SourceFile \<Rightarrow> Generator \<Rightarrow> Config \<Rightarrow> Node list \<Rightarrow> RouterMap
     \<Rightarrow> RouterMap outcome"
where
  "lookForRoutes parse sourceFile generator config (OtherNode children) m =
     forEachChild parse sourceFile generator config children m"
| "lookForRoutes parse sourceFile generator config (CallNode callexpr children) m =
     (case isRouterFunction sourceFile callexpr of
        (ds, Inl e) \<Rightarrow> (ds, Inl e)
      | (ds, Inr False) \<Rightarrow>
          (case forEachChild parse sourceFile generator config children m of
             (ds', res) \<Rightarrow> (ds @ ds', res))
      | (ds, Inr True) \<Rightarrow>
          (case (case handleKoaRouter parse callexpr sourceFile generator config of
                   (ds1, Inl e) \<Rightarrow> if e = NiceError then (ds1, Inr None) else (ds1, Inl e)
                 | (ds1, Inr route) \<Rightarrow> (ds1, Inr route)) of
             (ds1, Inl e) \<Rightarrow> (ds @ ds1, Inl e)
           | (ds1, Inr route) \<Rightarrow>
               (case ce_receiverSymbol callexpr of
                  None \<Rightarrow> (ds @ ds1, Inl (Error ''Expected router variable to resolve to a symbol''))
                | Some symb \<Rightarrow>
                    (case route of
                       None \<Rightarrow> (ds @ ds1, Inr m)
                     | Some r \<Rightarrow>
                         (case forEachChild parse sourceFile generator config children
                                 (addRoute symb r m) of
                            (ds', res) \<Rightarrow> (ds @ ds1 @ ds', res))))))"
| "forEachChild parse sourceFile generator config [] m = ([], Inr m)"
| "forEachChild parse sourceFile generator config (n # ns) m =
     (case lookForRoutes parse sourceFile generator config n m of
        (ds, Inl e) \<Rightarrow> (ds, Inl e)
      | (ds, Inr m') \<Rightarrow>
          (case forEachChild parse sourceFile generator config ns m' of
             (ds', res) \<Rightarrow> (ds @ ds', res)))"

text \<open>
  groupByRoute, lines 451 to 470. The Map and the array of the source hold the
  same Group objects, so one list stands for both: a Block joins the Group of
  its path, or starts a Group that comes last.
\<close>

definition addToGroups :: "Block \<Rightarrow> Group list \<Rightarrow> Group list" where
  "addToGroups doc groups =
     (if b_path doc \<in> g_path ` set groups
      then map (\<lambda>g. if g_path g = b_path doc then g\<lparr>g_methods := g_methods g @ [doc]\<rparr> else g)
             groups
      else groups @ [\<lparr> g_path = b_path doc, g_methods = [doc] \<rparr>])"

definition groupByRoute :: "Block list \<Rightarrow> Group list" where
  "groupByRoute docs = foldl (\<lambda>groups doc. addToGroups doc groups) [] docs"

text \<open>
  parseRouterDoc, lines 275 to 282. The filter keeps every tag with a
  non-empty name.
\<close>

definition parseRouterDoc :: "Symbol \<Rightarrow> Group list \<Rightarrow> Error + Router" where
  "parseRouterDoc router routes =
     (let routePaths = filter (\<lambda>t. fst t \<noteq> []) (sym_jsDocTags router)
      in if 1 < length routePaths then Inl (Error ''Too many @route tags'')
         else
           (let path = (case routePaths of
                          [] \<Rightarrow> ''/''
                        | t # _ \<Rightarrow> (case snd t of
                                      None \<Rightarrow> ''/''
                                    | Some text \<Rightarrow> if text = [] then ''/'' else text));
                titleDesc = splitByFirstNewline (sym_documentation router)
            in Inr \<lparr> rt_path = path, rt_title = fst titleDesc,
                     rt_description = snd titleDesc, rt_routes = routes \<rparr>))"

section \<open>The emitter (emitter.ts)\<close>

text \<open>
  The library functions the emitter calls: \<open>path.join\<close> of Node, \<open>encodeURI\<close>
  and \<open>encodeURIComponent\<close>, and \<open>stringify\<close> of json-stable-stringify with an
  indentation of two, for an example and for a schema.
\<close>

record Runtime =
  js_pathJoin :: "string \<Rightarrow> string \<Rightarrow> string"
  js_encodeURI :: "string \<Rightarrow> string"
  js_encodeURIComponent :: "string \<Rightarrow> string"
  js_stringify :: "json \<Rightarrow> string"
  js_stringifySchema :: "Definition \<Rightarrow> string"

definition PARAM_INDENT :: string where
  "PARAM_INDENT = ''  ''"

definition RES_INDENT :: string where
  "RES_INDENT = ''    ''"

definition BODY_INDENT :: string where
  "BODY_INDENT = ''        ''"

text \<open>\<open>Array.prototype.join\<close> and \<open>String.prototype.split\<close> on one character.\<close>

fun joinWith :: "string \<Rightarrow> string list \<Rightarrow> string" where
  "joinWith sep [] = []"
| "joinWith sep [x] = x"
| "joinWith sep (x # y # ys) = x @ sep @ joinWith sep (y # ys)"

function splitOn :: "char \<Rightarrow> string \<Rightarrow> string list" where
  "splitOn sep s =
     (case dropWhile (\<lambda>c. c \<noteq> sep) s of
        [] \<Rightarrow> [s]
      | _ # rest \<Rightarrow> takeWhile (\<lambda>c. c \<noteq> sep) s # splitOn sep rest)"
  by pat_completeness auto
termination
proof (relation "measure (\<lambda>(sep, s). length s)")
  show "wf (measure (\<lambda>(sep, s). length s))" by simp
next
  fix sep :: char and s x rest
  assume "dropWhile (\<lambda>c. c \<noteq> sep) s = x # rest"
  then have "length (x # rest) \<le> length s"
    by (metis length_dropWhile_le)
  then show "((sep, rest), (sep, s)) \<in> measure (\<lambda>(sep, s). length s)" by simp
qed

declare splitOn.simps [simp del]

text \<open>\<open>text.split('\n').map(l => RES_INDENT + BODY_INDENT + l).join('\n')\<close>.\<close>

definition indentLines :: "string \<Rightarrow> string" where
  "indentLines text = joinWith [NL] (map (\<lambda>l. RES_INDENT @ BODY_INDENT @ l) (splitOn NL text))"

text \<open>The truth value of a body in \<open>if (res.body)\<close>.\<close>

definition truthy :: "json \<Rightarrow> bool" where
  "truthy v = (case v of
       JNull \<Rightarrow> False
     | JBool b \<Rightarrow> b
     | JNum n \<Rightarrow> n \<noteq> 0
     | JStr s \<Rightarrow> s \<noteq> []
     | _ \<Rightarrow> True)"

text \<open>
  Each function returns the chunks it writes to the file stream, in order.
  emitParam, lines 94 to 96.
\<close>

definition emitParam :: "Runtime \<Rightarrow> Param \<Rightarrow> string list" where
  "emitParam rt param =
     [PARAM_INDENT @ ''+ '' @ p_name param @ '': ''
        @ (if p_query param then js_encodeURIComponent rt (p_example param)
           else js_encodeURI rt (p_example param))
        @ '' (required, '' @ p_type param @ '') - '' @ p_description param @ [NL]]"

text \<open>emitResponse, lines 101 to 124.\<close>

definition emitResponse :: "Runtime \<Rightarrow> Response \<Rightarrow> string list" where
  "emitResponse rt res =
     [[NL] @ ''+ Response '' @ numberToString (r_code res)]
     @ (case r_type res of
          None \<Rightarrow> []
        | Some ty \<Rightarrow> if ty \<noteq> [] \<and> ty \<noteq> ''text/plain'' then ['' ('' @ ty @ '')''] else [])
     @ [[NL]]
     @ (case r_body res of
          None \<Rightarrow> []
        | Some b \<Rightarrow>
            if truthy b
            then [[NL] @ RES_INDENT @ ''+ Body'' @ [NL],
                  [NL] @ indentLines (case b of JStr text \<Rightarrow> text | _ \<Rightarrow> js_stringify rt b) @ [NL]]
            else [])
     @ (case r_schema res of
          None \<Rightarrow> []
        | Some schema \<Rightarrow>
            [[NL] @ RES_INDENT @ ''+ Schema'' @ [NL],
             [NL] @ indentLines (js_stringifySchema rt schema) @ [NL]])"

text \<open>
  emitBody, lines 126 to 137. A content type of \<open>null\<close> is written as the text
  null, and a body of \<open>null\<close> is given to \<open>stringify\<close>.
\<close>

definition emitBody :: "Runtime \<Rightarrow> RequestBody \<Rightarrow> string list" where
  "emitBody rt body =
     [[NL] @ ''+ Request <name> ('' @ (case rb_type body of None \<Rightarrow> ''null'' | Some ty \<Rightarrow> ty)
        @ '')'',
      [NL] @ indentLines (case rb_body body of
                            Some (JStr text) \<Rightarrow> text
                          | Some b \<Rightarrow> js_stringify rt b
                          | None \<Rightarrow> js_stringify rt JNull) @ [NL]]"

text \<open>
  emitRoute, lines 68 to 89: the url with its query template, the path
  heading, the method heading and the description, then the parameters, the
  body and the responses.
\<close>

definition routeUrl :: "Runtime \<Rightarrow> Block \<Rightarrow> string \<Rightarrow> string" where
  "routeUrl rt doc leadingPath =
     (let url = js_pathJoin rt leadingPath (formatPath (b_path doc));
          queryParams = map p_name (filter p_query (b_params doc))
      in if 0 < length queryParams then url @ ''{?'' @ joinWith '','' queryParams @ ''}''
         else url)"

definition emitRoute :: "Runtime \<Rightarrow> Block \<Rightarrow> string \<Rightarrow> string list" where
  "emitRoute rt doc leadingPath =
     [[NL] @ ''## <Unnamed group> ['' @ routeUrl rt doc leadingPath @ '']'' @ [NL],
      [NL] @ ''### '' @ b_title doc @ '' ['' @ toUpperCase (b_method doc) @ '']'' @ [NL],
      b_description doc @ [NL]]
     @ (if 0 < length (b_params doc)
        then ([NL] @ ''+ Parameters'' @ [NL]) # concat (map (emitParam rt) (b_params doc))
        else [])
     @ (case b_body doc of None \<Rightarrow> [] | Some body \<Rightarrow> emitBody rt body)
     @ concat (map (emitResponse rt) (b_responses doc))"

text \<open>emitGroup, lines 61 to 63, and emit, lines 51 to 54.\<close>

definition emitGroup :: "Runtime \<Rightarrow> Group \<Rightarrow> string \<Rightarrow> string list" where
  "emitGroup rt doc leadingPath = concat (map (\<lambda>r. emitRoute rt r leadingPath) (g_methods doc))"

definition emit :: "Runtime \<Rightarrow> Router \<Rightarrow> string list" where
  "emit rt doc =
     ([NL] @ ''# Group '' @ rt_title doc @ [NL]
        @ (case rt_description doc of None \<Rightarrow> [] | Some d \<Rightarrow> d) @ [NL])
     # concat (map (\<lambda>g. emitGroup rt g (rt_path doc)) (rt_routes doc))"

section \<open>Documenting the files (parser.ts)\<close>

text \<open>
  The loop of documentSourceFile, lines 224 to 227, over the entries of the Map
  in insertion order: the chunks written and the exception that ended the
  loop, if any. What was written before an exception stays written.
\<close>

fun emitRouters :: "Runtime \<Rightarrow> RouterMap \<Rightarrow> string list \<times> Error option" where
  "emitRouters rt [] = ([], None)"
| "emitRouters rt ((router, routes) # entries) =
     (case parseRouterDoc router (groupByRoute routes) of
        Inl e \<Rightarrow> ([], Some e)
      | Inr routerDoc \<Rightarrow>
          (case emitRouters rt entries of
             (written, e) \<Rightarrow> (emit rt routerDoc @ written, e)))"

text \<open>
  What one turn of that loop writes for an entry of the Map: the Router that
  parseRouterDoc makes of the symbol and of the Groups of its Blocks, and
  nothing when parseRouterDoc throws.
\<close>

definition emitEntry :: "Runtime \<Rightarrow> Symbol \<times> Block list \<Rightarrow> string list" where
  "emitEntry rt entry =
     (case parseRouterDoc (fst entry) (groupByRoute (snd entry)) of
        Inl e \<Rightarrow> []
      | Inr routerDoc \<Rightarrow> emit rt routerDoc)"

text \<open>
  documentSourceFile, lines 219 to 261: the chunks written to the stream, the
  diagnostics reported and the exception thrown, if any.
\<close>

record Pass =
  written :: "string list"
  reported :: "Diagnostic list"
  thrown :: "Error option"

definition documentSourceFile ::
  "(string \<Rightarrow> Comment list) \<Rightarrow> SourceFile \<Rightarrow> Generator \<Rightarrow> Runtime \<Rightarrow> Config \<Rightarrow> Pass" where
  "documentSourceFile parse sourceFile generator rt config =
     (case forEachChild parse sourceFile generator config (sf_children sourceFile) [] of
        (ds, Inl e) \<Rightarrow> \<lparr> written = [], reported = ds, thrown = Some e \<rparr>
      | (ds, Inr routersToRoutes) \<Rightarrow>
          (case emitRouters rt routersToRoutes of
             (ws, e) \<Rightarrow> \<lparr> written = ws, reported = ds, thrown = e \<rparr>))"

text \<open>
  createDocumentation, lines 172 to 181. The generator is what
  \<open>tjs.buildGenerator\<close> returned, \<open>None\<close> for \<open>null\<close>; \<open>forEach\<close> over the files
  ends at the first exception.
\<close>

fun documentFiles ::
  "(string \<Rightarrow> Comment list) \<Rightarrow> SourceFile list \<Rightarrow> Generator \<Rightarrow> Runtime \<Rightarrow> Config \<Rightarrow> Pass" where
  "documentFiles parse [] generator rt config = \<lparr> written = [], reported = [], thrown = None \<rparr>"
| "documentFiles parse (f # fs) generator rt config =
     (let p = documentSourceFile parse f generator rt config
      in case thrown p of
           Some e \<Rightarrow> p
         | None \<Rightarrow>
             (let q = documentFiles parse fs generator rt config
              in \<lparr> written = written p @ written q, reported = reported p @ reported q,
                   thrown = thrown q \<rparr>))"

definition createDocumentation ::
  "(string \<Rightarrow> Comment list) \<Rightarrow> SourceFile list \<Rightarrow> Generator option \<Rightarrow> Runtime \<Rightarrow> Config \<Rightarrow> Pass" where
  "createDocumentation parse files generator rt config =
     (let nonLibFiles = filter (\<lambda>f. afterFirst ''node_modules'' (sf_fileName f) = None) files
      in case generator of
           None \<Rightarrow> \<lparr> written = [], reported = [], thrown = Some (Error ''program has errors'') \<rparr>
         | Some g \<Rightarrow> documentFiles parse nonLibFiles g rt config)"

section \<open>The registrations of a file\<close>

text \<open>
  The documented route registrations that lookForRoutes adds to the Map, in
  the order of the visit: a pair of the receiver's symbol and the Block for
  every call that isRouterFunction accepts and for which handleKoaRouter
  returns a Block, found by the same visit (the children of a call whose
  route is undefined are not visited). \<open>addRoutes\<close> adds such pairs to a Map one
  after the other, and \<open>routesOf\<close> selects the Blocks registered through one
  symbol.
\<close>

fun registrations ::
  "(string \<Rightarrow> Comment list) \<Rightarrow> SourceFile \<Rightarrow> Generator \<Rightarrow> Config \<Rightarrow> Node
     \<Rightarrow> (Symbol \<times> Block) list"
and registrationsList ::
  "(string \<Rightarrow> Comment list) \<Rightarrow> SourceFile \<Rightarrow> Generator \<Rightarrow> Config \<Rightarrow> Node list
     \<Rightarrow> (Symbol \<times> Block) list"
where
  "registrations parse sourceFile generator config (OtherNode children) =
     registrationsList parse sourceFile generator config children"
| "registrations parse sourceFile generator config (CallNode callexpr children) =
     (case snd (isRouterFunction sourceFile callexpr) of
        Inl e \<Rightarrow> []
      | Inr False \<Rightarrow> registrationsList parse sourceFile generator config children
      | Inr True \<Rightarrow>
          (case (snd (handleKoaRouter parse callexpr sourceFile generator config),
                 ce_receiverSymbol callexpr) of
             (Inr (Some route), Some symb) \<Rightarrow>
               (symb, route) # registrationsList parse sourceFile generator config children
           | _ \<Rightarrow> []))"
| "registrationsList parse sourceFile generator config [] = []"
| "registrationsList parse sourceFile generator config (n # ns) =
     registrations parse sourceFile generator config n
     @ registrationsList parse sourceFile generator config ns"

definition addRoutes :: "RouterMap \<Rightarrow> (Symbol \<times> Block) list \<Rightarrow> RouterMap" where
  "addRoutes m regs = foldl (\<lambda>m r. addRoute (fst r) (snd r) m) m regs"

definition routesOf :: "Symbol \<Rightarrow> (Symbol \<times> Block) list \<Rightarrow> Block list" where
  "routesOf symb regs = map snd (filter (\<lambda>r. fst r = symb) regs)"

section \<open>Places in the tree of a file\<close>



section \<open>A runtime for evaluation\<close>

text \<open>
  The library functions on a POSIX system and on ASCII text, to evaluate the
  emitter at concrete inputs: \<open>path.join\<close> of Node (the arguments joined by
  \<open>/\<close> and normalized as \<open>path.posix.normalize\<close> does), \<open>encodeURI\<close> and
  \<open>encodeURIComponent\<close> (every other byte is percent-encoded), and
  json-stable-stringify with an indentation of two (the keys of an object in
  order, an array or object closed on a line of its own). A schema is printed
  with the members that \<open>Definition\<close> keeps (\<open>type\<close>, \<open>properties\<close>,
  \<open>additionalProperties\<close>, \<open>items\<close>); the other members of a generated schema,
  such as \<open>$schema\<close>, \<open>required\<close> or \<open>definitions\<close>, are not part of it, so the
  text after \<open>+ Schema\<close> is that of the kept members only.
\<close>

definition normalizeStep :: "bool \<Rightarrow> string list \<Rightarrow> string \<Rightarrow> string list" where
  "normalizeStep allowAboveRoot res seg =
     (if seg = [] \<or> seg = ''.'' then res
      else if seg = ''..'' then
        (case res of
           [] \<Rightarrow> if allowAboveRoot then [''..''] else []
         | r # rs \<Rightarrow> if r = ''..'' then (if allowAboveRoot then ''..'' # res else res) else rs)
      else seg # res)"

definition posixNormalize :: "string \<Rightarrow> string" where
  "posixNormalize p =
     (if p = [] then ''.''
      else
        (let isAbsolute = (hd p = CHR ''/'');
             trailingSeparator = (last p = CHR ''/'');
             body = joinWith ''/'' (rev (foldl (normalizeStep (\<not> isAbsolute)) [] (splitOn (CHR ''/'') p)))
         in if body = [] then (if isAbsolute then ''/'' else if trailingSeparator then ''./'' else ''.'')
            else (if isAbsolute then ''/'' else []) @ body @ (if trailingSeparator then ''/'' else [])))"

definition posixJoin :: "string \<Rightarrow> string \<Rightarrow> string" where
  "posixJoin a b =
     (let parts = filter (\<lambda>x. x \<noteq> []) [a, b]
      in if parts = [] then ''.'' else posixNormalize (joinWith ''/'' parts))"

definition hexDigit :: "nat \<Rightarrow> char" where
  "hexDigit n = ''0123456789ABCDEF'' ! n"

definition percentEncode :: "(char \<Rightarrow> bool) \<Rightarrow> string \<Rightarrow> string" where
  "percentEncode keep s =
     concat (map (\<lambda>c. if keep c then [c]
                       else [CHR ''%'', hexDigit (of_char c div 16), hexDigit (of_char c mod 16)]) s)"

definition uriUnreserved :: "char \<Rightarrow> bool" where
  "uriUnreserved c = (let n = (of_char c :: nat) in
     (48 \<le> n \<and> n \<le> 57) \<or> (65 \<le> n \<and> n \<le> 90) \<or> (97 \<le> n \<and> n \<le> 122)
     \<or> c \<in> set ''-_.!~*'()'')"

definition uriReserved :: "char \<Rightarrow> bool" where
  "uriReserved c = (c \<in> set '';/?:@&=+$,#'')"

definition lowerHexDigit :: "nat \<Rightarrow> char" where
  "lowerHexDigit n = ''0123456789abcdef'' ! n"

definition quoteChar :: "char \<Rightarrow> string" where
  "quoteChar c = (let n = (of_char c :: nat) in
     if c = CHR 0x22 then [CHR 0x5C, CHR 0x22]
     else if c = CHR 0x5C then [CHR 0x5C, CHR 0x5C]
     else if n = 8 then [CHR 0x5C, CHR ''b'']
     else if n = 9 then [CHR 0x5C, CHR ''t'']
     else if n = 10 then [CHR 0x5C, CHR ''n'']
     else if n = 12 then [CHR 0x5C, CHR ''f'']
     else if n = 13 then [CHR 0x5C, CHR ''r'']
     else if n < 32 then [CHR 0x5C, CHR ''u'', CHR ''0'', CHR ''0'', lowerHexDigit (n div 16), lowerHexDigit (n mod 16)]
     else [c])"

definition quote :: "string \<Rightarrow> string" where
  "quote s = [CHR 0x22] @ concat (map quoteChar s) @ [CHR 0x22]"

definition levelIndent :: "nat \<Rightarrow> string" where
  "levelIndent level = NL # replicate (2 * level) (CHR '' '')"

function stringifyNode :: "nat \<Rightarrow> json \<Rightarrow> string"
and stringifyItems :: "nat \<Rightarrow> json list \<Rightarrow> string list"
and stringifyMembers :: "nat \<Rightarrow> (string \<times> json) list \<Rightarrow> (string \<times> string) list"
where
  "stringifyNode level JNull = ''null''"
| "stringifyNode level (JBool b) = (if b then ''true'' else ''false'')"
| "stringifyNode level (JNum n) = numberToString n"
| "stringifyNode level (JStr s) = quote s"
| "stringifyNode level (JArr items) =
     ''['' @ joinWith '','' (stringifyItems level items) @ levelIndent level @ '']''"
| "stringifyNode level (JObj members) =
     ''{'' @ joinWith '','' (map snd (sort_key fst (stringifyMembers level members)))
       @ levelIndent level @ ''}''"
| "stringifyItems level [] = []"
| "stringifyItems level (item # items) =
     (levelIndent level @ ''  '' @ stringifyNode (Suc level) item) # stringifyItems level items"
| "stringifyMembers level [] = []"
| "stringifyMembers level ((key, v) # members) =
     (key, levelIndent level @ ''  '' @ quote key @ '': '' @ stringifyNode (Suc level) v)
     # stringifyMembers level members"
  by pat_completeness auto
termination
  by (relation "measure (\<lambda>x. case x of
        Inl (_, v) \<Rightarrow> size v
      | Inr (Inl (_, vs)) \<Rightarrow> size_list size vs
      | Inr (Inr (_, ms)) \<Rightarrow> size_list (size_prod (\<lambda>_. 0) size) ms)")
     auto

definition stableStringify :: "json \<Rightarrow> string" where
  "stableStringify v = stringifyNode 0 v"

function definitionJson :: "Definition \<Rightarrow> json"
and propertiesJson :: "(string \<times> Definition) list \<Rightarrow> (string \<times> json) list"
and itemsJson :: "Definition list \<Rightarrow> json list"
where
  "definitionJson (Definition ty props addl items) =
     JObj ((case ty of
              TypeAbsent \<Rightarrow> []
            | TypeName n \<Rightarrow> [(''type'', JStr n)]
            | TypeNames ns \<Rightarrow> [(''type'', JArr (map JStr ns))])
         @ (case props of
              None \<Rightarrow> []
            | Some ps \<Rightarrow> [(''properties'', JObj (propertiesJson ps))])
         @ (case addl of
              AdditionalAbsent \<Rightarrow> []
            | AdditionalBool b \<Rightarrow> [(''additionalProperties'', JBool b)]
            | AdditionalSchema a \<Rightarrow> [(''additionalProperties'', definitionJson a)])
         @ (case items of
              ItemsAbsent \<Rightarrow> []
            | ItemsBool b \<Rightarrow> [(''items'', JBool b)]
            | ItemsOne it \<Rightarrow> [(''items'', definitionJson it)]
            | ItemsMany its \<Rightarrow> [(''items'', JArr (itemsJson its))]))"
| "propertiesJson [] = []"
| "propertiesJson ((k, d) # ps) = (k, definitionJson d) # propertiesJson ps"
| "itemsJson [] = []"
| "itemsJson (d # ds) = definitionJson d # itemsJson ds"
  by pat_completeness auto
termination
  by (relation "measure (\<lambda>x. case x of
        Inl d \<Rightarrow> size d
      | Inr (Inl ps) \<Rightarrow> size_list (size_prod (\<lambda>_. 0) size) ps
      | Inr (Inr its) \<Rightarrow> size_list size its)")
     auto

definition nodePosix :: Runtime where
  "nodePosix = \<lparr>
     js_pathJoin = posixJoin,
     js_encodeURI = percentEncode (\<lambda>c. uriUnreserved c \<or> uriReserved c),
     js_encodeURIComponent = percentEncode uriUnreserved,
     js_stringify = stableStringify,
     js_stringifySchema = (\<lambda>d. stableStringify (definitionJson d)) \<rparr>"

section \<open>Example inputs\<close>

text \<open>
  The configuration with the default defaults of config.ts and no example
  override.
\<close>

definition defaultConfig :: Config where
  "defaultConfig = \<lparr>
     c_output = ''./api.apib'', c_host = None, c_title = None, c_description = None,
     c_defaults = \<lparr> d_number = 0, d_string = ''abcd'', d_boolean = True, d_jsonKey = ''key'' \<rparr>,
     c_examples_response = Map.empty, c_examples_param = Map.empty, c_afterHook = None \<rparr>"

text \<open>A generator that knows no type, and a source file with no node.\<close>

definition noSchemas :: Generator where
  "noSchemas typeName = Inl (''type '' @ typeName @ '' not found'')"

definition testFile :: SourceFile where
  "testFile = \<lparr> sf_fileName = ''test/index.ts'', sf_children = [] \<rparr>"

text \<open>
  A router variable documented with one @route tag, and a route on it whose
  comment interleaves @query and @param tags.
\<close>

definition routerSymbol :: Symbol where
  "routerSymbol = \<lparr> sym_id = 1, sym_jsDocTags = [(''route'', Some ''/'')],
     sym_documentation = ''Greetings'' \<rparr>"

definition interleavedComment :: Comment where
  "interleavedComment = \<lparr>
     cm_description = ''Parse a name'',
     cm_tags = [
       \<lparr> t_tag = ''query'', t_name = ''first'', t_type = ''string'', t_description = ''q1'',
          t_line = 2, t_source = ''@query {string} first q1'' \<rparr>,
       \<lparr> t_tag = ''param'', t_name = ''id'', t_type = ''number'', t_description = ''p1'',
          t_line = 3, t_source = ''@param {number} id p1'' \<rparr>,
       \<lparr> t_tag = ''query'', t_name = ''second'', t_type = ''string'', t_description = ''q2'',
          t_line = 4, t_source = ''@query {string} second q2'' \<rparr>,
       \<lparr> t_tag = ''param'', t_name = ''kind'', t_type = ''string'', t_description = ''p2'',
          t_line = 5, t_source = ''@param {string} kind p2'' \<rparr>] \<rparr>"

definition interleavedCall :: CallExpression where
  "interleavedCall = \<lparr>
     ce_receiverSymbol = Some routerSymbol, ce_receiverType = ''Router'', ce_childCount = 3,
     ce_memberName = Some ''get'',
     ce_arguments = [StringLiteral ''/items/:id/:kind'', OtherExpression],
     ce_leadingComments = [(109, ''/** Parse a name ... */'')], ce_receiverObject = 1 \<rparr>"

text \<open>
  The schema of \<open>interface ExampleBody { hello: string, something: number }\<close>, a
  generator that knows this type only, a @response tag with no type whose text
  continues on the next line, a @response tag with a type on one line, and the
  position of their comment.
\<close>

definition exampleBodySchema :: Definition where
  "exampleBodySchema = Definition (TypeName ''object'')
     (Some [(''hello'', Definition (TypeName ''string'') None AdditionalAbsent ItemsAbsent),
            (''something'', Definition (TypeName ''number'') None AdditionalAbsent ItemsAbsent)])
     AdditionalAbsent ItemsAbsent"

text \<open>
  The schema of \<open>interface Indexed { hello: string, something: number,
  [extra: string]: string | number }\<close>: the same two properties, and a schema
  for additional properties.
\<close>

definition indexedSchema :: Definition where
  "indexedSchema = Definition (TypeName ''object'')
     (Some [(''hello'', Definition (TypeName ''string'') None AdditionalAbsent ItemsAbsent),
            (''something'', Definition (TypeName ''number'') None AdditionalAbsent ItemsAbsent)])
     (AdditionalSchema
        (Definition (TypeNames [''string'', ''number'']) None AdditionalAbsent ItemsAbsent))
     ItemsAbsent"

text \<open>
  The schema of \<open>interface CountFirst { 7: number, name: string }\<close>: the number
  property comes first.
\<close>

definition countFirstSchema :: Definition where
  "countFirstSchema = Definition (TypeName ''object'')
     (Some [(''7'', Definition (TypeName ''number'') None AdditionalAbsent ItemsAbsent),
            (''name'', Definition (TypeName ''string'') None AdditionalAbsent ItemsAbsent)])
     AdditionalAbsent ItemsAbsent"

text \<open>
  The schema of \<open>type Result = Done | Failed\<close>, a union of two interfaces: it
  has an \<open>anyOf\<close> member and no \<open>type\<close>.
\<close>

definition resultSchema :: Definition where
  "resultSchema = Definition TypeAbsent None AdditionalAbsent ItemsAbsent"

definition testGenerator :: Generator where
  "testGenerator typeName =
     (if typeName = ''ExampleBody'' then Inr exampleBodySchema
      else if typeName = ''Result'' then Inr resultSchema
      else Inl (''type '' @ typeName @ '' not found''))"







text \<open>
  Routes in the manner of test/index.ts, all on the variable \<open>router\<close>: two
  documented routes on the path \<open>/\<close>; a route whose comment is
  \<open>@response uh oh\<close>; a route whose first @response tag names a type the
  generator does not know, followed by a well-formed @response tag; a route
  whose @body tag names such a type, in the \<open>{type}\<close> bracket or in the bracket
  of the name slot; a route with two @body tags; and a route with both faults,
  the unknown type first. \<open>testParse\<close> is the comment parser on the texts of
  their comments.
\<close>

definition helloComment :: Comment where
  "helloComment = \<lparr>
     cm_description = ''Say hello'' @ [NL, NL] @ ''Give a nice, welcoming, greeting message.'',
     cm_tags = [
       \<lparr> t_tag = ''response'', t_name = ''200'', t_type = ''text/plain'',
          t_description = ''Hello world!'', t_line = 5,
          t_source = ''@response {text/plain} 200'' @ [NL] @ ''Hello world!'' \<rparr>] \<rparr>"

definition setHelloComment :: Comment where
  "setHelloComment = \<lparr>
     cm_description = ''Set hello message'' @ [NL, NL] @ ''This does nothing.'',
     cm_tags = [
       \<lparr> t_tag = ''response'', t_name = ''200'', t_type = ''text/plain'',
          t_description = ''Hello world!'', t_line = 5,
          t_source = ''@response {text/plain} 200'' @ [NL] @ ''Hello world!'' \<rparr>] \<rparr>"

definition uhTag :: Tag where
  "uhTag = \<lparr> t_tag = ''response'', t_name = ''uh'', t_type = [], t_description = ''oh'',
     t_line = 1, t_source = ''@response uh oh'' \<rparr>"

definition incorrectComment :: Comment where
  "incorrectComment = \<lparr> cm_description = [], cm_tags = [uhTag] \<rparr>"

definition missingTag :: Tag where
  "missingTag = \<lparr> t_tag = ''response'', t_name = ''200'', t_type = ''Missing'',
     t_description = [], t_line = 4, t_source = ''@response {Missing} 200'' \<rparr>"

definition unresolvedComment :: Comment where
  "unresolvedComment = \<lparr>
     cm_description = ''Give a nonsensical response'' @ [NL, NL] @ ''Sends a weird body back.'',
     cm_tags = [missingTag,
       \<lparr> t_tag = ''response'', t_name = ''400'', t_type = ''text/plain'',
          t_description = ''Bad request'', t_line = 5,
          t_source = ''@response {text/plain} 400'' @ [NL] @ ''Bad request'' \<rparr>] \<rparr>"

definition missingBodyTag :: Tag where
  "missingBodyTag = \<lparr> t_tag = ''body'', t_name = ''{application/json}'', t_type = ''Missing'',
     t_description = [], t_line = 3, t_source = ''@body {Missing} {application/json}'' \<rparr>"

definition unresolvedBodyComment :: Comment where
  "unresolvedBodyComment = \<lparr> cm_description = ''Take in some data'', cm_tags = [missingBodyTag] \<rparr>"

definition nameSlotBodyTag :: Tag where
  "nameSlotBodyTag = \<lparr> t_tag = ''body'', t_name = ''{Missing}'', t_type = ''application/json'',
     t_description = [], t_line = 3, t_source = ''@body {application/json} {Missing}'' \<rparr>"

definition nameSlotBodyComment :: Comment where
  "nameSlotBodyComment = \<lparr> cm_description = ''Take in more data'',
     cm_tags = [nameSlotBodyTag] \<rparr>"

definition twoBodiesComment :: Comment where
  "twoBodiesComment = \<lparr> cm_description = ''Take in two bodies'',
     cm_tags = [missingBodyTag, missingBodyTag\<lparr>t_line := 4\<rparr>] \<rparr>"

definition twoFaultsComment :: Comment where
  "twoFaultsComment = \<lparr>
     cm_description = ''Two faults'',
     cm_tags = [missingTag\<lparr>t_line := 2\<rparr>, uhTag\<lparr>t_line := 3\<rparr>] \<rparr>"

definition testParse :: "string \<Rightarrow> Comment list" where
  "testParse text =
     (case map_of [(''/** Say hello */'', helloComment),
                   (''/** Set hello message */'', setHelloComment),
                   (''/** @response uh oh */'', incorrectComment),
                   (''/** Give a nonsensical response */'', unresolvedComment),
                   (''/** Take in some data */'', unresolvedBodyComment),
                   (''/** Two faults */'', twoFaultsComment),
                   (''/** Take in more data */'', nameSlotBodyComment),
                   (''/** Take in two bodies */'', twoBodiesComment)] text of
        Some c \<Rightarrow> [c]
      | None \<Rightarrow> [])"

definition routeCall :: "Symbol \<Rightarrow> nat \<Rightarrow> string \<Rightarrow> string \<Rightarrow> nat \<Rightarrow> string \<Rightarrow> CallExpression" where
  "routeCall symb obj method path line comment = \<lparr>
     ce_receiverSymbol = Some symb, ce_receiverType = ''Router'', ce_childCount = 3,
     ce_memberName = Some method, ce_arguments = [StringLiteral path, OtherExpression],
     ce_leadingComments = [(line, comment)], ce_receiverObject = obj \<rparr>"

definition helloCall :: CallExpression where
  "helloCall = routeCall routerSymbol 1 ''get'' ''/'' 64 ''/** Say hello */''"

definition setHelloCall :: CallExpression where
  "setHelloCall = routeCall routerSymbol 1 ''post'' ''/'' 76 ''/** Set hello message */''"

definition incorrectCall :: CallExpression where
  "incorrectCall = routeCall routerSymbol 1 ''get'' ''/incorrect'' 133 ''/** @response uh oh */''"

definition unresolvedCall :: CallExpression where
  "unresolvedCall = routeCall routerSymbol 1 ''get'' ''/random'' 151
     ''/** Give a nonsensical response */''"

definition unresolvedBodyCall :: CallExpression where
  "unresolvedBodyCall = routeCall routerSymbol 1 ''post'' ''/post'' 180 ''/** Take in some data */''"

definition nameSlotBodyCall :: CallExpression where
  "nameSlotBodyCall = routeCall routerSymbol 1 ''put'' ''/post'' 200 ''/** Take in more data */''"

definition twoBodiesCall :: CallExpression where
  "twoBodiesCall = routeCall routerSymbol 1 ''patch'' ''/post'' 210 ''/** Take in two bodies */''"

definition twoFaultsCall :: CallExpression where
  "twoFaultsCall = routeCall routerSymbol 1 ''get'' ''/faults'' 160 ''/** Two faults */''"

text \<open>
  The Blocks of the two documented routes on \<open>/\<close>, and a Group of two Blocks on
  one path of which only the first has a query parameter.
\<close>

definition helloBlock :: Block where
  "helloBlock = \<lparr> b_method = ''get'', b_path = ''/'', b_title = ''Say hello'',
     b_description = ''Give a nice, welcoming, greeting message.'', b_params = [],
     b_responses = [\<lparr> r_code = 200, r_when = None, r_type = Some ''text/plain'',
                       r_body = Some (JStr ''Hello world!''), r_schema = None \<rparr>],
     b_body = None \<rparr>"

definition setHelloBlock :: Block where
  "setHelloBlock = \<lparr> b_method = ''post'', b_path = ''/'', b_title = ''Set hello message'',
     b_description = ''This does nothing.'', b_params = [],
     b_responses = [\<lparr> r_code = 200, r_when = None, r_type = Some ''text/plain'',
                       r_body = Some (JStr ''Hello world!''), r_schema = None \<rparr>],
     b_body = None \<rparr>"

definition parseGetBlock :: Block where
  "parseGetBlock = \<lparr> b_method = ''get'', b_path = ''/parse/:kind'', b_title = ''Parse a name'',
     b_description = ''Parses a name.'',
     b_params = [\<lparr> p_query = False, p_name = ''kind'', p_type = ''string'',
                    p_description = ''The kind of name'', p_example = ''abcd'' \<rparr>,
                 \<lparr> p_query = True, p_name = ''name'', p_type = ''string'',
                    p_description = ''The name of the person'', p_example = ''abcd'' \<rparr>],
     b_responses = [], b_body = None \<rparr>"

definition parsePostBlock :: Block where
  "parsePostBlock = \<lparr> b_method = ''post'', b_path = ''/parse/:kind'', b_title = ''Store a name'',
     b_description = ''Stores a name.'', b_params = [], b_responses = [], b_body = None \<rparr>"

definition parseGroup :: Group where
  "parseGroup = \<lparr> g_path = ''/parse/:kind'', g_methods = [parseGetBlock, parsePostBlock] \<rparr>"

text \<open>
  A router variable whose comment carries two @route tags, with a route on it,
  and two more files.
\<close>

definition twiceSymbol :: Symbol where
  "twiceSymbol = \<lparr> sym_id = 2, sym_jsDocTags = [(''route'', Some ''/a''), (''route'', Some ''/b'')],
     sym_documentation = ''Administration'' \<rparr>"

definition adminCall :: CallExpression where
  "adminCall = routeCall twiceSymbol 2 ''get'' ''/'' 40 ''/** Say hello */''"

definition setHelloFile :: SourceFile where
  "setHelloFile = \<lparr> sf_fileName = ''test/other.ts'', sf_children = [CallNode setHelloCall []] \<rparr>"

definition laterFile :: SourceFile where
  "laterFile = \<lparr> sf_fileName = ''test/later.ts'', sf_children = [CallNode helloCall []] \<rparr>"

text \<open>
  In the manner of \<open>const alias = router\<close>: a second variable, so a second
  symbol, that holds the routing object of \<open>router\<close> and has the same
  documentation, with a route on it; and a route on \<open>router\<close> after the
  variable was assigned a second routing object. Before them, a route on
  \<open>router\<close> with a path of its own.
\<close>

definition otherCall :: CallExpression where
  "otherCall = routeCall routerSymbol 1 ''get'' ''/other'' 90 ''/** Say hello */''"

definition otherBlock :: Block where
  "otherBlock = helloBlock\<lparr>b_path := ''/other''\<rparr>"

definition aliasSymbol :: Symbol where
  "aliasSymbol = \<lparr> sym_id = 3, sym_jsDocTags = [(''route'', Some ''/'')],
     sym_documentation = ''Greetings'' \<rparr>"

definition aliasCall :: CallExpression where
  "aliasCall = routeCall aliasSymbol 1 ''post'' ''/'' 76 ''/** Set hello message */''"

definition reassignedCall :: CallExpression where
  "reassignedCall = routeCall routerSymbol 2 ''post'' ''/'' 76 ''/** Set hello message */''"

section \<open>Properties\<close>

text \<open>
  C10. The example of a parameter built from a @param or @query tag is the
  override registered for the parameter's name in the param table when there
  is one, and the configured string default otherwise; the declared type of
  the tag plays no part: two tags that differ only in their type get the same
  example.
\<close>

theorem parseParam_example:
  "p_example (parseParam tag query config) =
     (case c_examples_param config (t_name tag) of
        Some v \<Rightarrow> v
      | None \<Rightarrow> d_string (c_defaults config))
   \<and> p_example (parseParam (tag\<lparr>t_type := ty\<rparr>) query config) =
       p_example (parseParam tag query config)"
  by (simp add: parseParam_def)


subsection \<open>The order of the parameters\<close>

lemma parseParam_fields:
  "p_query (parseParam tag q config) = q" "p_name (parseParam tag q config) = t_name tag"
  by (simp_all add: parseParam_def)

lemma handleKoaRouter_block_params:
  assumes "handleKoaRouter parse node sourceFile generator config = (ds, Inr (Some block))"
  shows "\<exists>comment rest. parse (concat (map snd (ce_leadingComments node))) = comment # rest
     \<and> b_params block =
         map (\<lambda>tag. parseParam tag False config) (filter (\<lambda>t. t_tag t = ''param'') (cm_tags comment))
       @ map (\<lambda>tag. parseParam tag True config) (filter (\<lambda>t. t_tag t = ''query'') (cm_tags comment))"
  using assms
  unfolding handleKoaRouter_def Let_def
  by (auto split: list.splits prod.splits sum.splits if_splits)

lemmas fixture_defs = defaultConfig_def interleavedComment_def routerSymbol_def interleavedCall_def
  noSchemas_def testFile_def

lemmas parser_defs = handleKoaRouter_def Let_def methodText_def pathText_def parseParam_def
  minLine_def getPosition_def
  splitByFirstNewline_def trim_def isWhiteSpace_def toUpperCase_def

text \<open>
  C3. When handleKoaRouter returns a Block for a call whose comment is the
  first comment the parser found, the params of the Block are the Params of
  the @param tags in their tag order, followed by the Params of the @query
  tags in their tag order, however the tags interleave in the comment: the
  names are those of the @param tags and then those of the @query tags, and
  the query flags are false on the first part and true on the second.
\<close>

theorem handleKoaRouter_params_order:
  assumes "handleKoaRouter parse node sourceFile generator config = (ds, Inr (Some block))"
    and "parse (concat (map snd (ce_leadingComments node))) = comment # rest"
    and "urlTags = filter (\<lambda>t. t_tag t = ''param'') (cm_tags comment)"
    and "queryTags = filter (\<lambda>t. t_tag t = ''query'') (cm_tags comment)"
  shows "b_params block = map (\<lambda>tag. parseParam tag False config) urlTags
                          @ map (\<lambda>tag. parseParam tag True config) queryTags
    \<and> map p_name (b_params block) = map t_name urlTags @ map t_name queryTags
    \<and> map p_query (b_params block)
        = replicate (length urlTags) False @ replicate (length queryTags) True"
proof -
  from handleKoaRouter_block_params[OF assms(1)] assms(2)
  have eq: "b_params block = map (\<lambda>tag. parseParam tag False config) urlTags
                          @ map (\<lambda>tag. parseParam tag True config) queryTags"
    using assms(3,4) by auto
  have "map p_query (map (\<lambda>tag. parseParam tag q config) ts) = replicate (length ts) q" for q ts
    by (induction ts) (simp_all add: parseParam_fields)
  then show ?thesis using eq by (simp add: parseParam_fields comp_def)
qed

theorem handleKoaRouter_params_order_witness:
  "(\<exists>ds block. handleKoaRouter (\<lambda>text. [interleavedComment]) interleavedCall testFile noSchemas
       defaultConfig = (ds, Inr (Some block))
     \<and> map t_name (cm_tags interleavedComment) = [''first'', ''id'', ''second'', ''kind'']
     \<and> map t_tag (cm_tags interleavedComment) = [''query'', ''param'', ''query'', ''param'']
     \<and> map p_name (b_params block) = [''id'', ''kind'', ''first'', ''second'']
     \<and> map p_query (b_params block) = [False, False, True, True])"
proof -
  obtain ds block where
    h1: "handleKoaRouter (\<lambda>text. [interleavedComment]) interleavedCall testFile noSchemas
           defaultConfig = (ds, Inr (Some block))"
    by (simp add: parser_defs fixture_defs)
  have h2: "(\<lambda>text. [interleavedComment]) (concat (map snd (ce_leadingComments interleavedCall)))
              = interleavedComment # []"
    by simp
  from handleKoaRouter_params_order[OF h1 h2 refl refl, THEN conjunct2]
  have "map p_name (b_params block) = [''id'', ''kind'', ''first'', ''second'']
      \<and> map p_query (b_params block) = [False, False, True, True]"
    by (simp add: interleavedComment_def)
  with h1 show ?thesis by (simp add: interleavedComment_def)
qed

subsection \<open>The placeholder conversion applied twice\<close>

text \<open>
  A text is left as it is by the conversion exactly when no colon of it starts
  a match, and the conversion never shortens a text.
\<close>

lemma length_formatPath: "length s \<le> length (formatPath s)"
proof (induction s rule: formatPath.induct)
  case 1 show ?case by simp
next
  case (2 c cs)
  show ?case
  proof (cases "c = CHR '':'' \<and> takeWhile (\<lambda>x. x \<noteq> CHR ''/'') cs \<noteq> []")
    case True
    have "length cs = length (takeWhile (\<lambda>x. x \<noteq> CHR ''/'') cs) + length (dropWhile (\<lambda>x. x \<noteq> CHR ''/'') cs)"
      by (metis length_append takeWhile_dropWhile_id)
    with True 2(1) show ?thesis by simp
  next
    case False
    with 2(2) show ?thesis by auto
  qed
qed

lemma formatPath_fix: "formatPath s = s \<longleftrightarrow> noPlaceholder s"
proof (induction s rule: formatPath.induct)
  case 1 show ?case by simp
next
  case (2 c cs)
  show ?case
  proof (cases "c = CHR '':'' \<and> takeWhile (\<lambda>x. x \<noteq> CHR ''/'') cs \<noteq> []")
    case True
    have l: "length cs = length (takeWhile (\<lambda>x. x \<noteq> CHR ''/'') cs) + length (dropWhile (\<lambda>x. x \<noteq> CHR ''/'') cs)"
      by (metis length_append takeWhile_dropWhile_id)
    have "length (formatPath (c # cs)) > length (c # cs)"
      using True l length_formatPath[of "dropWhile (\<lambda>x. x \<noteq> CHR ''/'') cs"] by simp
    then have "formatPath (c # cs) \<noteq> c # cs" by (metis less_irrefl)
    with True show ?thesis by simp
  next
    case False
    with 2(2) show ?thesis by auto
  qed
qed


lemma noPlaceholder_colon_free:
  "CHR '':'' \<notin> set s \<Longrightarrow> noPlaceholder (s @ t) = noPlaceholder t"
  by (induction s) auto

lemma noPlaceholder_colon_in_segment:
  "CHR '':'' \<in> set s \<Longrightarrow> CHR ''/'' \<notin> set s \<Longrightarrow> \<not> noPlaceholder (s @ CHR ''}'' # t)"
proof (induction s)
  case Nil then show ?case by simp
next
  case (Cons c cs)
  show ?case
  proof (cases "c = CHR '':''")
    case True
    have "takeWhile (\<lambda>x. x \<noteq> CHR ''/'') (cs @ CHR ''}'' # t) \<noteq> []"
      by (cases cs) (use Cons.prems in auto)
    with True show ?thesis by simp
  next
    case False
    with Cons show ?thesis by auto
  qed
qed

lemma oneColon_seen:
  "oneColonPerSegment True s \<longleftrightarrow>
     CHR '':'' \<notin> set (takeWhile (\<lambda>x. x \<noteq> CHR ''/'') s)
     \<and> oneColonPerSegment False (dropWhile (\<lambda>x. x \<noteq> CHR ''/'') s)"
  by (induction s) auto

lemma formatPath_segment_start:
  "takeWhile (\<lambda>x. x \<noteq> CHR ''/'') cs = [] \<Longrightarrow>
   takeWhile (\<lambda>x. x \<noteq> CHR ''/'') (formatPath cs) = []"
  by (cases cs) (auto split: if_splits)

lemma noPlaceholder_formatPath:
  "noPlaceholder (formatPath p) \<longleftrightarrow> oneColonPerSegment False p"
proof (induction p rule: formatPath.induct)
  case 1 show ?case by simp
next
  case (2 c cs)
  let ?seg = "takeWhile (\<lambda>x. x \<noteq> CHR ''/'') cs"
  let ?rest = "dropWhile (\<lambda>x. x \<noteq> CHR ''/'') cs"
  show ?case
  proof (cases "c = CHR '':'' \<and> ?seg \<noteq> []")
    case True
    have fp: "formatPath (c # cs) = CHR ''{'' # (?seg @ CHR ''}'' # formatPath ?rest)"
      using True by simp
    have sl: "CHR ''/'' \<notin> set ?seg"
      by (metis (mono_tags, lifting) set_takeWhileD)
    show ?thesis
    proof (cases "CHR '':'' \<in> set ?seg")
      case in_seg: True
      then have "\<not> noPlaceholder (?seg @ CHR ''}'' # formatPath ?rest)"
        using sl by (rule noPlaceholder_colon_in_segment)
      then show ?thesis using True in_seg by (simp add: oneColon_seen)
    next
      case out: False
      then have "noPlaceholder (?seg @ CHR ''}'' # formatPath ?rest) = noPlaceholder (formatPath ?rest)"
        by (simp add: noPlaceholder_colon_free)
      then show ?thesis using True out 2(1) by (simp add: oneColon_seen)
    qed
  next
    case False
    have fp: "formatPath (c # cs) = c # formatPath cs" using False by auto
    show ?thesis
    proof (cases "c = CHR '':''")
      case colon: True
      with False have e: "?seg = []" by simp
      then have "takeWhile (\<lambda>x. x \<noteq> CHR ''/'') (formatPath cs) = []"
        by (rule formatPath_segment_start)
      moreover have "?rest = cs" using e by (cases cs) (auto split: if_splits)
      ultimately show ?thesis using colon fp e 2(2) False by (simp add: oneColon_seen)
    next
      case other: False
      then show ?thesis using fp 2(2) False by auto
    qed
  qed
qed

text \<open>
  Converting a converted path again gives the same text exactly when no
  segment of the path holds more than one colon.
\<close>

lemma formatPath_idempotent_iff:
  "formatPath (formatPath p) = formatPath p \<longleftrightarrow> oneColonPerSegment False p"
  by (simp add: formatPath_fix noPlaceholder_formatPath)

text \<open>
  C5. The claim fails on the code at a path with two parameters in one
  segment, which koa-router and Express accept: \<open>/flights/:from-:to\<close> is
  converted to \<open>/flights/{from-:to}\<close>, where the comment of formatPath announces
  the placeholders that API Blueprint expects, \<open>/flights/{from}-{to}\<close>. The
  pattern takes all the text up to the next \<open>/\<close> for the name of the first
  parameter, so the second parameter is left for a second conversion, which
  gives \<open>/flights/{from-{to}}\<close>: on this path the conversion applied twice is not
  the conversion applied once.
\<close>

theorem formatPath_two_parameters:
  "formatPath ''/flights/:from-:to'' = ''/flights/{from-:to}''
   \<and> formatPath ''/flights/:from-:to'' \<noteq> ''/flights/{from}-{to}''
   \<and> formatPath (formatPath ''/flights/:from-:to'') = ''/flights/{from-{to}}''
   \<and> formatPath (formatPath ''/flights/:from-:to'') \<noteq> formatPath ''/flights/:from-:to''"
  by simp

subsection \<open>The example of an object with a string and a number property\<close>

lemmas object_defs = assign_def isArrayIndex_def indexBefore_def digitsValue_def radixDigit_def

lemma namedExample_unregistered:
  "c_examples_response config n = None \<Longrightarrow> namedExample config (Some n) = None"
  by (simp add: namedExample_def)

lemma createSchemaExample_string:
  assumes "switchType (s_type s) = Some ''string''" and "c_examples_response config n = None"
  shows "createSchemaExample s config (Some n) = Inr (JStr (d_string (c_defaults config)))"
  using assms by (cases s) (simp add: namedExample_unregistered)

lemma createSchemaExample_number:
  assumes "switchType (s_type s) = Some ''number''" and "c_examples_response config n = None"
  shows "createSchemaExample s config (Some n) = Inr (JNum (d_number (c_defaults config)))"
  using assms by (cases s) (simp add: namedExample_unregistered)

text \<open>
  Two assignments to an empty object under two different keys give an object
  with these two members, in the one order or the other.
\<close>

lemma assign_two:
  assumes "k1 \<noteq> k2"
  shows "assign k2 v2 (assign k1 v1 []) = [(k1, v1), (k2, v2)]
       \<or> assign k2 v2 (assign k1 v1 []) = [(k2, v2), (k1, v1)]"
proof -
  have 1: "assign k1 v1 [] = [(k1, v1)]"
    by (simp add: assign_def)
  show ?thesis
    unfolding 1 using assms by (simp add: assign_def)
qed

lemma two_members:
  assumes "k1 \<noteq> k2" and "ms = [(k1, v1), (k2, v2)] \<or> ms = [(k2, v2), (k1, v1)]"
  shows "distinct (map fst ms) \<and> set ms = {(k1, v1), (k2, v2)}"
  using assms by auto

text \<open>
  C9, as the code has it. For an object schema with exactly two properties,
  \<open>a\<close> of kind string and \<open>b\<close> of kind number (two different names, in either
  order of \<open>Object.keys\<close>), with no override registered for \<open>a\<close> or \<open>b\<close> in the
  response table and no schema for additional properties
  (\<open>additionalProperties\<close> is absent or a boolean), the synthesized example is
  an object with exactly two members: \<open>a\<close> bound to the configured string
  default and \<open>b\<close> bound to the configured number default, whatever name the
  schema itself is synthesized under.
\<close>

theorem createSchemaExample_two_properties:
  assumes "switchType ty = Some ''object''"
    and "switchType (s_type sa) = Some ''string''"
    and "switchType (s_type sb) = Some ''number''"
    and "a \<noteq> b"
    and "props = [(a, sa), (b, sb)] \<or> props = [(b, sb), (a, sa)]"
    and "c_examples_response config a = None"
    and "c_examples_response config b = None"
    and "addl = AdditionalAbsent \<or> addl = AdditionalBool extra"
  shows "\<exists>members.
           createSchemaExample (Definition ty (Some props) addl items) config name
             = Inr (JObj members)
         \<and> distinct (map fst members)
         \<and> set members = {(a, JStr (d_string (c_defaults config))),
                           (b, JNum (d_number (c_defaults config)))}"
proof -
  let ?A = "JStr (d_string (c_defaults config))" and ?B = "JNum (d_number (c_defaults config))"
  have sa: "createSchemaExample sa config (Some a) = Inr ?A"
    using assms(2,6) by (rule createSchemaExample_string)
  have sb: "createSchemaExample sb config (Some b) = Inr ?B"
    using assms(3,7) by (rule createSchemaExample_number)
  have "\<exists>members. exampleProperties props config [] = Inr members
          \<and> distinct (map fst members) \<and> set members = {(a, ?A), (b, ?B)}"
  proof -
    from assms(5) show ?thesis
    proof
      assume p: "props = [(a, sa), (b, sb)]"
      have e: "exampleProperties props config [] = Inr (assign b ?B (assign a ?A []))"
        unfolding p by (simp add: sa sb)
      have "distinct (map fst (assign b ?B (assign a ?A [])))
          \<and> set (assign b ?B (assign a ?A [])) = {(a, ?A), (b, ?B)}"
        using assms(4) assign_two[OF assms(4)] by (rule two_members)
      with e show ?thesis by simp
    next
      assume p: "props = [(b, sb), (a, sa)]"
      have e: "exampleProperties props config [] = Inr (assign a ?A (assign b ?B []))"
        unfolding p by (simp add: sa sb)
      have ba: "b \<noteq> a" using assms(4) by simp
      have "distinct (map fst (assign a ?A (assign b ?B [])))
          \<and> set (assign a ?A (assign b ?B [])) = {(b, ?B), (a, ?A)}"
        using ba assign_two[OF ba] by (rule two_members)
      with e show ?thesis by (simp add: insert_commute)
    qed
  qed
  then obtain members where m: "exampleProperties props config [] = Inr members"
    "distinct (map fst members)" "set members = {(a, ?A), (b, ?B)}"
    by blast
  from assms(8) have "createSchemaExample (Definition ty (Some props) addl items) config name
             = Inr (JObj members)"
    using assms(1) m(1) by auto
  with m(2,3) show ?thesis by blast
qed

text \<open>
  The theorem at the schema of \<open>interface ExampleBody\<close>, and at a schema whose
  number property comes first and has an array index for its name.
\<close>

theorem createSchemaExample_two_properties_witness:
  "(\<exists>members. createSchemaExample exampleBodySchema defaultConfig None = Inr (JObj members)
      \<and> distinct (map fst members)
      \<and> set members = {(''hello'', JStr ''abcd''), (''something'', JNum 0)})
   \<and> createSchemaExample exampleBodySchema defaultConfig None
       = Inr (JObj [(''hello'', JStr ''abcd''), (''something'', JNum 0)])
   \<and> (\<exists>members. createSchemaExample countFirstSchema defaultConfig None = Inr (JObj members)
      \<and> distinct (map fst members)
      \<and> set members = {(''name'', JStr ''abcd''), (''7'', JNum 0)})
   \<and> createSchemaExample countFirstSchema defaultConfig None
       = Inr (JObj [(''7'', JNum 0), (''name'', JStr ''abcd'')])"
proof -
  have 1: "\<exists>members. createSchemaExample exampleBodySchema defaultConfig None = Inr (JObj members)
      \<and> distinct (map fst members)
      \<and> set members = {(''hello'', JStr ''abcd''), (''something'', JNum 0)}"
    using createSchemaExample_two_properties[of "TypeName ''object''"
      "Definition (TypeName ''string'') None AdditionalAbsent ItemsAbsent"
      "Definition (TypeName ''number'') None AdditionalAbsent ItemsAbsent"
      "''hello''" "''something''"
      "[(''hello'', Definition (TypeName ''string'') None AdditionalAbsent ItemsAbsent),
        (''something'', Definition (TypeName ''number'') None AdditionalAbsent ItemsAbsent)]"
      defaultConfig AdditionalAbsent False ItemsAbsent None]
    by (simp add: exampleBodySchema_def switchType_def defaultConfig_def)
  have 2: "\<exists>members. createSchemaExample countFirstSchema defaultConfig None = Inr (JObj members)
      \<and> distinct (map fst members)
      \<and> set members = {(''name'', JStr ''abcd''), (''7'', JNum 0)}"
    using createSchemaExample_two_properties[of "TypeName ''object''"
      "Definition (TypeName ''string'') None AdditionalAbsent ItemsAbsent"
      "Definition (TypeName ''number'') None AdditionalAbsent ItemsAbsent"
      "''name''" "''7''"
      "[(''7'', Definition (TypeName ''number'') None AdditionalAbsent ItemsAbsent),
        (''name'', Definition (TypeName ''string'') None AdditionalAbsent ItemsAbsent)]"
      defaultConfig AdditionalAbsent False ItemsAbsent None]
    by (simp add: countFirstSchema_def switchType_def defaultConfig_def)
  have 3: "createSchemaExample exampleBodySchema defaultConfig None
       = Inr (JObj [(''hello'', JStr ''abcd''), (''something'', JNum 0)])"
    by (simp add: exampleBodySchema_def switchType_def defaultConfig_def namedExample_def
        object_defs)
  have 4: "createSchemaExample countFirstSchema defaultConfig None
       = Inr (JObj [(''7'', JNum 0), (''name'', JStr ''abcd'')])"
    by (simp add: countFirstSchema_def switchType_def defaultConfig_def namedExample_def
        object_defs)
  from 1 2 3 4 show ?thesis by blast
qed

text \<open>
  C9 as stated fails where the schema has a schema for additional properties,
  as an interface with an index signature has: the properties are exactly
  \<open>hello\<close>, a string, and \<open>something\<close>, a number, no override is registered,
  and the example has a third member under \<open>config.defaults.jsonKey\<close>.
\<close>

theorem createSchemaExample_additional_counterexample:
  "map fst (case s_properties indexedSchema of None \<Rightarrow> [] | Some ps \<Rightarrow> ps)
     = [''hello'', ''something'']
   \<and> map (\<lambda>p. switchType (s_type (snd p)))
        (case s_properties indexedSchema of None \<Rightarrow> [] | Some ps \<Rightarrow> ps)
     = [Some ''string'', Some ''number'']
   \<and> c_examples_response defaultConfig ''hello'' = None
   \<and> c_examples_response defaultConfig ''something'' = None
   \<and> createSchemaExample indexedSchema defaultConfig None
     = Inr (JObj [(''hello'', JStr ''abcd''), (''something'', JNum 0), (''key'', JStr ''abcd'')])"
  by (simp add: indexedSchema_def defaultConfig_def switchType_def namedExample_def object_defs)

subsection \<open>Literal text and synthesized examples in a response\<close>













lemmas js_defs = parseInt_def isWhiteSpace_def radixDigit_def digitsValue_def Let_def
  numberToString_def decimal.simps matchCodeWhitespace_def includesChar_def




subsection \<open>Routes that fail to parse\<close>














lemma isRouterFunction_symbol:
  "isRouterFunction sourceFile node = (ds, Inr True) \<Longrightarrow> \<exists>s. ce_receiverSymbol node = Some s"
  by (auto simp: isRouterFunction_def split: option.splits if_splits list.splits Argument.splits)
















lemmas scan_fixture_defs = helloComment_def setHelloComment_def uhTag_def incorrectComment_def
  missingTag_def unresolvedComment_def twoFaultsComment_def testParse_def routeCall_def
  helloCall_def setHelloCall_def incorrectCall_def unresolvedCall_def twoFaultsCall_def
  testGenerator_def testFile_def routerSymbol_def defaultConfig_def exampleBodySchema_def
  missingBodyTag_def unresolvedBodyComment_def unresolvedBodyCall_def
  nameSlotBodyTag_def nameSlotBodyComment_def nameSlotBodyCall_def
  twoBodiesComment_def twoBodiesCall_def resultSchema_def

lemmas scan_defs = isRouterFunction_def ROUTER_TYPE_def ROUTER_METHODS_def parser_defs
  parseResponse_def schemaAndExample_def adjustedDescription_def js_defs addRoute_def
  parseBody_def matchBraces_def









subsection \<open>What the emitter writes for a Group\<close>

lemma emitRoute_headings:
  "emitRoute rt r leadingPath =
        ([NL] @ ''## <Unnamed group> [''
           @ js_pathJoin rt leadingPath (formatPath (b_path r))
           @ (if filter p_query (b_params r) = [] then []
              else ''{?'' @ joinWith '','' (map p_name (filter p_query (b_params r))) @ ''}'')
           @ '']'' @ [NL])
        # ([NL] @ ''### '' @ b_title r @ '' ['' @ toUpperCase (b_method r) @ '']'' @ [NL])
        # drop 2 (emitRoute rt r leadingPath)"
proof (cases "filter p_query (b_params r) = []")
  case True
  then show ?thesis by (simp add: emitRoute_def routeUrl_def Let_def)
next
  case False
  then show ?thesis by (simp add: emitRoute_def routeUrl_def Let_def)
qed

text \<open>
  C8, as the code has it. For a Group the emitter writes, for each Block of
  the Group in order, a path heading of its own, then the method heading of
  the Block, then the rest of the Block. The path heading of a Block shows
  \<open>path.join\<close> of the router's path and the registration path with its
  placeholders converted, followed by the query template \<open>{?name1,name2,...}\<close>
  of the query parameters of that Block when it has any.
\<close>

theorem emitGroup_headings:
  "emitGroup rt doc leadingPath =
     concat (map (\<lambda>r.
        ([NL] @ ''## <Unnamed group> [''
           @ js_pathJoin rt leadingPath (formatPath (b_path r))
           @ (if filter p_query (b_params r) = [] then []
              else ''{?'' @ joinWith '','' (map p_name (filter p_query (b_params r))) @ ''}'')
           @ '']'' @ [NL])
        # ([NL] @ ''### '' @ b_title r @ '' ['' @ toUpperCase (b_method r) @ '']'' @ [NL])
        # drop 2 (emitRoute rt r leadingPath)) (g_methods doc))"
  unfolding emitGroup_def
  by (rule arg_cong[where f = concat], rule map_cong[OF refl], rule emitRoute_headings)

lemmas emit_defs = emitGroup_def emitRoute_def routeUrl_def Let_def emitParam_def emitBody_def
  emitResponse_def emit_def indentLines_def PARAM_INDENT_def RES_INDENT_def BODY_INDENT_def
  toUpperCase_def upperChar_def truthy_def

lemmas runtime_defs = nodePosix_def posixJoin_def posixNormalize_def normalizeStep_def
  splitOn.simps percentEncode_def uriUnreserved_def uriReserved_def hexDigit_def
  stableStringify_def quote_def quoteChar_def levelIndent_def lowerHexDigit_def

text \<open>
  C8 as stated fails: a Group of two Blocks gets two path headings, one before
  each method heading, and the heading of the Block with no query parameter
  has no query template although the other Block of the Group has one.
\<close>

theorem emitGroup_headings_counterexample:
  "groupByRoute [parseGetBlock, parsePostBlock] = [parseGroup]
   \<and> filter (\<lambda>w. take 4 w = [NL] @ ''## '') (emitGroup nodePosix parseGroup ''/'')
       = [[NL] @ ''## <Unnamed group> [/parse/{kind}{?name}]'' @ [NL],
          [NL] @ ''## <Unnamed group> [/parse/{kind}]'' @ [NL]]
   \<and> filter (\<lambda>w. take 5 w = [NL] @ ''### '') (emitGroup nodePosix parseGroup ''/'')
       = [[NL] @ ''### Parse a name [GET]'' @ [NL],
          [NL] @ ''### Store a name [POST]'' @ [NL]]"
  by (simp add: emit_defs runtime_defs parseGetBlock_def parsePostBlock_def parseGroup_def
      groupByRoute_def addToGroups_def)

subsection \<open>The Map of a file and what is written for it\<close>

text \<open>
  A successful scan returns the Map it was given with the registrations of
  the nodes added in the order of the visit.
\<close>

lemma addRoutes_simps [simp]:
  "addRoutes m [] = m"
  "addRoutes m (r # regs) = addRoutes (addRoute (fst r) (snd r) m) regs"
  "addRoutes m (regs @ regs') = addRoutes (addRoutes m regs) regs'"
  by (simp_all add: addRoutes_def)

lemma scan_registrations:
  "lookForRoutes parse sourceFile generator config n m = (ds, Inr m') \<Longrightarrow>
     m' = addRoutes m (registrations parse sourceFile generator config n)"
  "forEachChild parse sourceFile generator config ns m = (ds, Inr m') \<Longrightarrow>
     m' = addRoutes m (registrationsList parse sourceFile generator config ns)"
proof (induction parse sourceFile generator config n m and parse sourceFile generator config ns m
    arbitrary: ds m' and ds m' rule: lookForRoutes_forEachChild.induct)
  case (1 parse sourceFile generator config children m)
  then show ?case by simp
next
  case (2 parse sourceFile generator config callexpr children m)
  obtain d0 r0 where i: "isRouterFunction sourceFile callexpr = (d0, r0)"
    by (cases "isRouterFunction sourceFile callexpr")
  obtain d1 r1 where h: "handleKoaRouter parse callexpr sourceFile generator config = (d1, r1)"
    by (cases "handleKoaRouter parse callexpr sourceFile generator config")
  show ?case
  proof (cases r0)
    case (Inl e)
    with 2(3) i show ?thesis by simp
  next
    case (Inr b)
    show ?thesis
    proof (cases b)
      case False
      with Inr i 2(3) obtain ds' where
        "forEachChild parse sourceFile generator config children m = (ds', Inr m')"
        by (auto split: prod.splits)
      then have "m' = addRoutes m (registrationsList parse sourceFile generator config children)"
        using 2(2)[OF i[symmetric] Inr] False by simp
      with i Inr False show ?thesis by simp
    next
      case True
      have rf: "isRouterFunction sourceFile callexpr = (d0, Inr True)"
        using i Inr True by simp
      show ?thesis
      proof (cases "ce_receiverSymbol callexpr")
        case None
        with isRouterFunction_symbol[OF rf] show ?thesis by simp
      next
        case (Some symb)
        show ?thesis
        proof (cases r1)
          case e: (Inl e)
          with 2(3) rf h Some have "e = NiceError" "m' = m"
            by (auto split: if_splits)
          with rf h e Some show ?thesis by simp
        next
          case r: (Inr route)
          show ?thesis
          proof (cases route)
            case None
            with 2(3) rf h r Some have "m' = m" by simp
            with rf h r None Some show ?thesis by simp
          next
            case route: (Some block)
            with 2(3) rf h r Some obtain ds' where
              f: "forEachChild parse sourceFile generator config children (addRoute symb block m)
                    = (ds', Inr m')"
              by (auto split: prod.splits)
            have "(d1, Inr (Some block)) =
               (case handleKoaRouter parse callexpr sourceFile generator config of
                  (ds1, Inl e) \<Rightarrow> if e = NiceError then (ds1, Inr None) else (ds1, Inl e)
                | (ds1, Inr route) \<Rightarrow> (ds1, Inr route))"
              using h r route by simp
            from 2(1)[OF rf[symmetric] refl refl this refl Some refl f]
            have "m' = addRoutes (addRoute symb block m)
                         (registrationsList parse sourceFile generator config children)" .
            with rf h r route Some show ?thesis by simp
          qed
        qed
      qed
    qed
  qed
next
  case (3 parse sourceFile generator config m)
  then show ?case by simp
next
  case (4 parse sourceFile generator config n ns m)
  then show ?case
    by (auto split: prod.splits sum.splits)
qed

lemma addRoute_keys: "map fst (addRoute symb route m) =
    (if symb \<in> fst ` set m then map fst m else map fst m @ [symb])"
  by (auto simp: addRoute_def split: prod.splits)

lemma addRoute_key_set: "fst ` set (addRoute symb route m) = insert symb (fst ` set m)"
proof -
  have "fst ` set (addRoute symb route m) = set (map fst (addRoute symb route m))" by simp
  also have "\<dots> = insert symb (fst ` set m)"
    unfolding addRoute_keys by auto
  finally show ?thesis .
qed

lemma addRoute_distinct:
  "distinct (map fst m) \<Longrightarrow> distinct (map fst (addRoute symb route m))"
  by (simp add: addRoute_keys)

lemma map_of_push:
  "map_of (map (\<lambda>(k, routeArray). if k = symb then (k, routeArray @ [route]) else (k, routeArray)) m) s
   = (if s = symb then map_option (\<lambda>rs. rs @ [route]) (map_of m s) else map_of m s)"
  by (induction m) auto

lemma map_of_key: "(map_of m s = None) = (s \<notin> fst ` set m)"
  by (rule map_of_eq_None_iff)

lemma addRoute_map_of:
  "map_of (addRoute symb route m) s =
     (if s = symb then Some ((case map_of m symb of None \<Rightarrow> [] | Some rs \<Rightarrow> rs) @ [route])
      else map_of m s)"
proof (cases "map_of m symb")
  case None
  then have "symb \<notin> fst ` set m" by (simp add: map_of_key)
  then have "addRoute symb route m = m @ [(symb, [route])]" by (simp add: addRoute_def)
  then show ?thesis using None by (cases "map_of m s") (auto simp add: map_add_def)
next
  case (Some rs)
  then have "symb \<in> fst ` set m" using map_of_key[of m symb] by simp
  then show ?thesis using Some by (simp add: addRoute_def map_of_push)
qed

lemma addRoutes_distinct:
  "distinct (map fst m) \<Longrightarrow> distinct (map fst (addRoutes m regs))"
  by (induction regs arbitrary: m) (simp_all add: addRoute_distinct)

lemma addRoutes_map_of:
  "map_of (addRoutes m regs) s =
     (if s \<in> fst ` set m \<union> fst ` set regs
      then Some ((case map_of m s of None \<Rightarrow> [] | Some rs \<Rightarrow> rs) @ routesOf s regs)
      else None)"
proof (induction regs arbitrary: m)
  case Nil
  show ?case
  proof (cases "map_of m s")
    case None
    then show ?thesis using map_of_key[of m s] by simp
  next
    case (Some rs)
    then show ?thesis using map_of_key[of m s] by (simp add: routesOf_def)
  qed
next
  case (Cons r regs)
  show ?case
  proof (cases "s = fst r")
    case True
    then show ?thesis
      unfolding addRoutes_simps Cons.IH addRoute_key_set
      by (simp add: addRoute_map_of routesOf_def)
  next
    case False
    then show ?thesis
      unfolding addRoutes_simps Cons.IH addRoute_key_set
      by (simp add: addRoute_map_of routesOf_def)
  qed
qed

lemma addRoutes_keys:
  "fst ` set (addRoutes m regs) = fst ` set m \<union> fst ` set regs"
  by (induction regs arbitrary: m) (auto simp: addRoute_key_set)

lemma groupByRoute_snoc: "groupByRoute (bs @ [b]) = addToGroups b (groupByRoute bs)"
  by (simp add: groupByRoute_def)

text \<open>
  The Groups of a list of Blocks: one Group for each path, in the order in
  which the paths first appear, with the Blocks of that path in their order.
\<close>

lemma groupByRoute_eq:
  "groupByRoute bs =
     map (\<lambda>p. \<lparr> g_path = p, g_methods = filter (\<lambda>b. b_path b = p) bs \<rparr>)
       (rev (remdups (rev (map b_path bs))))"
proof (induction bs rule: rev_induct)
  case Nil
  show ?case by (simp add: groupByRoute_def)
next
  case (snoc b bs)
  let ?firsts = "rev (remdups (rev (map b_path bs)))"
  let ?F = "\<lambda>cs p. \<lparr> g_path = p, g_methods = filter (\<lambda>b. b_path b = p) cs \<rparr>"
  have paths: "g_path ` set (groupByRoute bs) = b_path ` set bs"
    unfolding snoc.IH by (auto simp: image_iff)
  show ?case
  proof (cases "b_path b \<in> b_path ` set bs")
    case True
    have f: "rev (remdups (rev (map b_path (bs @ [b])))) = ?firsts"
      using True by simp
    have "addToGroups b (groupByRoute bs)
        = map (\<lambda>g. if g_path g = b_path b then g\<lparr>g_methods := g_methods g @ [b]\<rparr> else g)
            (groupByRoute bs)"
      using True paths by (simp add: addToGroups_def)
    also have "\<dots> = map (?F (bs @ [b])) ?firsts"
      unfolding snoc.IH by (simp add: comp_def)
    finally show ?thesis unfolding groupByRoute_snoc f .
  next
    case False
    have f: "rev (remdups (rev (map b_path (bs @ [b])))) = ?firsts @ [b_path b]"
      using False by simp
    have "\<forall>c\<in>set bs. b_path c \<noteq> b_path b"
      using False by (metis imageI)
    then have e: "filter (\<lambda>c. b_path c = b_path b) bs = []"
      by (simp add: filter_empty_conv)
    have "addToGroups b (groupByRoute bs)
        = groupByRoute bs @ [\<lparr> g_path = b_path b, g_methods = [b] \<rparr>]"
      using False paths by (simp add: addToGroups_def)
    also have "\<dots> = map (?F bs) ?firsts @ [?F (bs @ [b]) (b_path b)]"
      unfolding snoc.IH using e by simp
    also have "map (?F bs) ?firsts = map (?F (bs @ [b])) ?firsts"
      using False by (intro map_cong refl) auto
    finally show ?thesis unfolding groupByRoute_snoc f by simp
  qed
qed

lemma parseRouterDoc_too_many:
  "1 < length (filter (\<lambda>t. fst t \<noteq> []) (sym_jsDocTags router)) \<Longrightarrow>
   parseRouterDoc router routes = Inl (Error ''Too many @route tags'')"
  by (simp add: parseRouterDoc_def)

lemma parseRouterDoc_routes:
  "parseRouterDoc router routes = Inr routerDoc \<Longrightarrow> rt_routes routerDoc = routes"
  by (auto simp: parseRouterDoc_def Let_def split: if_splits)

lemma parseRouterDoc_ok:
  "length (filter (\<lambda>t. fst t \<noteq> []) (sym_jsDocTags router)) \<le> 1 \<Longrightarrow>
   \<exists>routerDoc. parseRouterDoc router routes = Inr routerDoc"
  by (simp add: parseRouterDoc_def Let_def)

text \<open>
  The loop of documentSourceFile writes the Routers of the entries that come
  before the first symbol with more than one named tag, and throws at that
  symbol, if there is one.
\<close>

lemma emitRouters_eq:
  "emitRouters rt m =
     (concat (map (emitEntry rt)
        (takeWhile (\<lambda>e. length (filter (\<lambda>t. fst t \<noteq> []) (sym_jsDocTags (fst e))) \<le> 1) m)),
      if \<forall>e\<in>set m. length (filter (\<lambda>t. fst t \<noteq> []) (sym_jsDocTags (fst e))) \<le> 1 then None
      else Some (Error ''Too many @route tags''))"
proof (induction m)
  case Nil
  show ?case by simp
next
  case (Cons entry m)
  obtain router routes where entry: "entry = (router, routes)" by (cases entry)
  show ?case
  proof (cases "length (filter (\<lambda>t. fst t \<noteq> []) (sym_jsDocTags router)) \<le> 1")
    case True
    from parseRouterDoc_ok[OF True] obtain routerDoc where
      r: "parseRouterDoc router (groupByRoute routes) = Inr routerDoc" ..
    show ?thesis unfolding entry using True r Cons.IH by (simp add: emitEntry_def)
  next
    case False
    then have "1 < length (filter (\<lambda>t. fst t \<noteq> []) (sym_jsDocTags router))" by simp
    from parseRouterDoc_too_many[OF this]
    show ?thesis unfolding entry using False by simp
  qed
qed

lemma takeWhile_before:
  "\<not> P x \<Longrightarrow> takeWhile P (xs @ x # ys) = takeWhile P xs"
  by (induction xs) simp_all

lemma documentFiles_append:
  "thrown (documentFiles parse fs1 generator rt config) = None \<Longrightarrow>
   documentFiles parse (fs1 @ fs2) generator rt config =
     \<lparr> written = written (documentFiles parse fs1 generator rt config)
                 @ written (documentFiles parse fs2 generator rt config),
       reported = reported (documentFiles parse fs1 generator rt config)
                 @ reported (documentFiles parse fs2 generator rt config),
       thrown = thrown (documentFiles parse fs2 generator rt config) \<rparr>"
proof (induction fs1)
  case Nil
  show ?case by simp
next
  case (Cons f fs)
  from Cons.prems have 1: "thrown (documentSourceFile parse f generator rt config) = None"
    by (simp add: Let_def split: option.splits)
  with Cons.prems have 2: "thrown (documentFiles parse fs generator rt config) = None"
    by (simp add: Let_def)
  show ?case using 1 Cons.IH[OF 2] by (simp add: Let_def)
qed

lemmas route_fixture_defs = scan_fixture_defs twiceSymbol_def adminCall_def setHelloFile_def
  helloBlock_def setHelloBlock_def laterFile_def otherCall_def otherBlock_def

lemmas document_defs = documentSourceFile_def createDocumentation_def parseRouterDoc_def
  groupByRoute_def addToGroups_def scan_defs emit_defs runtime_defs

lemmas alias_fixture_defs = route_fixture_defs aliasSymbol_def aliasCall_def reassignedCall_def

subsection \<open>More than one router-level path tag\<close>

text \<open>
  C6, as the code has it. Let a symbol have more than one named tag and at
  least one documented route registered through it, in a file whose scan
  completes and which comes after files documented without an exception.
  Then the Map of the file has an entry for the symbol. The loop over the
  entries writes the Routers of the entries before the first symbol with more
  than one named tag, which all come before the entry of the symbol (they are
  all the entries before it when none of them has more than one named tag),
  and throws \<open>Too many @route tags\<close>, which ends the file and the pass: what
  the earlier files wrote stays written, and nothing is written for the
  symbol, for the entries after it or for the files after this one.
\<close>

theorem too_many_route_tags_aborts_pass:
  assumes "1 < length (filter (\<lambda>t. fst t \<noteq> []) (sym_jsDocTags router))"
    and "forEachChild parse sourceFile generator config (sf_children sourceFile) [] = (ds, Inr m)"
    and "router \<in> fst ` set (registrationsList parse sourceFile generator config
                               (sf_children sourceFile))"
    and "thrown (documentFiles parse earlier generator rt config) = None"
    and "ok = (\<lambda>e. length (filter (\<lambda>t. fst t \<noteq> []) (sym_jsDocTags (fst e))) \<le> 1)"
  shows "\<exists>before routes after.
       m = before @ (router, routes) # after
     \<and> set (takeWhile ok m) \<subseteq> set before
     \<and> ((\<forall>e\<in>set before. ok e) \<longrightarrow> takeWhile ok m = before)
     \<and> documentSourceFile parse sourceFile generator rt config
         = \<lparr> written = concat (map (emitEntry rt) (takeWhile ok m)), reported = ds,
             thrown = Some (Error ''Too many @route tags'') \<rparr>
     \<and> documentFiles parse (earlier @ sourceFile # later) generator rt config
         = \<lparr> written = written (documentFiles parse earlier generator rt config)
                         @ concat (map (emitEntry rt) (takeWhile ok m)),
             reported = reported (documentFiles parse earlier generator rt config) @ ds,
             thrown = Some (Error ''Too many @route tags'') \<rparr>"
proof -
  have "m = addRoutes [] (registrationsList parse sourceFile generator config
                            (sf_children sourceFile))"
    using scan_registrations(2)[OF assms(2)] by simp
  with assms(3) have "router \<in> fst ` set m" by (simp add: addRoutes_keys)
  then obtain routes where "(router, routes) \<in> set m" by auto
  then obtain before after where m: "m = before @ (router, routes) # after"
    by (auto dest: split_list)
  have bad: "\<not> ok (router, routes)" unfolding assms(5) using assms(1) by simp
  have t: "takeWhile ok m = takeWhile ok before"
    unfolding m using bad by (rule takeWhile_before)
  have 1: "set (takeWhile ok m) \<subseteq> set before"
    unfolding t by (auto dest: set_takeWhileD)
  have 2: "(\<forall>e\<in>set before. ok e) \<longrightarrow> takeWhile ok m = before"
    unfolding t by simp
  have "\<not> (\<forall>e\<in>set m. ok e)" unfolding m using bad by auto
  then have e: "emitRouters rt m
      = (concat (map (emitEntry rt) (takeWhile ok m)), Some (Error ''Too many @route tags''))"
    unfolding emitRouters_eq assms(5) by simp
  have 3: "documentSourceFile parse sourceFile generator rt config
         = \<lparr> written = concat (map (emitEntry rt) (takeWhile ok m)), reported = ds,
             thrown = Some (Error ''Too many @route tags'') \<rparr>"
    by (simp add: documentSourceFile_def assms(2) e)
  have "documentFiles parse (sourceFile # later) generator rt config
         = \<lparr> written = concat (map (emitEntry rt) (takeWhile ok m)), reported = ds,
             thrown = Some (Error ''Too many @route tags'') \<rparr>"
    by (simp add: 3 Let_def)
  then have 4: "documentFiles parse (earlier @ sourceFile # later) generator rt config
         = \<lparr> written = written (documentFiles parse earlier generator rt config)
                         @ concat (map (emitEntry rt) (takeWhile ok m)),
             reported = reported (documentFiles parse earlier generator rt config) @ ds,
             thrown = Some (Error ''Too many @route tags'') \<rparr>"
    unfolding documentFiles_append[OF assms(4)] by simp
  show ?thesis
    by (intro exI[of _ before] exI[of _ routes] exI[of _ after] conjI m 1 2 3 4)
qed

text \<open>
  The theorem at a file with a route on \<open>router\<close> and then a route on a variable
  with two @route tags, between two other files.
\<close>

theorem too_many_route_tags_aborts_pass_witness:
  "forEachChild testParse testFile testGenerator defaultConfig
       [CallNode helloCall [], CallNode adminCall []] []
     = ([], Inr [(routerSymbol, [helloBlock]), (twiceSymbol, [helloBlock])])
   \<and> registrationsList testParse testFile testGenerator defaultConfig
       [CallNode helloCall [], CallNode adminCall []]
     = [(routerSymbol, helloBlock), (twiceSymbol, helloBlock)]
   \<and> map fst (sym_jsDocTags twiceSymbol) = [''route'', ''route'']
   \<and> map fst (sym_jsDocTags routerSymbol) = [''route'']
   \<and> thrown (documentFiles testParse [setHelloFile] testGenerator nodePosix defaultConfig) = None
   \<and> documentFiles testParse
         [setHelloFile,
          testFile\<lparr>sf_children := [CallNode helloCall [], CallNode adminCall []]\<rparr>,
          laterFile]
         testGenerator nodePosix defaultConfig
       = \<lparr> written = written (documentFiles testParse [setHelloFile] testGenerator nodePosix
                                  defaultConfig)
                       @ emitEntry nodePosix (routerSymbol, [helloBlock]),
           reported = [], thrown = Some (Error ''Too many @route tags'') \<rparr>
   \<and> filter (\<lambda>w. take 5 w = [NL] @ ''### '')
         (written (documentFiles testParse
            [setHelloFile,
             testFile\<lparr>sf_children := [CallNode helloCall [], CallNode adminCall []]\<rparr>,
             laterFile]
            testGenerator nodePosix defaultConfig))
       = [[NL] @ ''### Set hello message [POST]'' @ [NL], [NL] @ ''### Say hello [GET]'' @ [NL]]"
proof -
  let ?file = "testFile\<lparr>sf_children := [CallNode helloCall [], CallNode adminCall []]\<rparr>"
  let ?ok = "\<lambda>e :: Symbol \<times> Block list.
               length (filter (\<lambda>t. fst t \<noteq> []) (sym_jsDocTags (fst e))) \<le> 1"
  have h1: "1 < length (filter (\<lambda>t. fst t \<noteq> []) (sym_jsDocTags twiceSymbol))"
    by (simp add: twiceSymbol_def)
  have h2: "forEachChild testParse ?file testGenerator defaultConfig (sf_children ?file) []
     = ([], Inr [(routerSymbol, [helloBlock]), (twiceSymbol, [helloBlock])])"
    by (simp add: scan_defs route_fixture_defs)
  have r: "registrationsList testParse ?file testGenerator defaultConfig (sf_children ?file)
     = [(routerSymbol, helloBlock), (twiceSymbol, helloBlock)]"
    by (simp add: scan_defs route_fixture_defs)
  have h3: "twiceSymbol \<in> fst ` set (registrationsList testParse ?file testGenerator defaultConfig
                               (sf_children ?file))"
    unfolding r by simp
  have h4: "thrown (documentFiles testParse [setHelloFile] testGenerator nodePosix defaultConfig)
            = None"
    by (simp add: document_defs route_fixture_defs)
  have t: "takeWhile ?ok [(routerSymbol, [helloBlock]), (twiceSymbol, [helloBlock])]
           = [(routerSymbol, [helloBlock])]"
    by (simp add: routerSymbol_def twiceSymbol_def)
  from too_many_route_tags_aborts_pass[where parse = testParse and sourceFile = ?file
      and generator = testGenerator and config = defaultConfig and rt = nodePosix
      and earlier = "[setHelloFile]" and later = "[laterFile]" and ok = ?ok,
      OF h1 h2 h3 h4 refl]
  have d: "documentFiles testParse ([setHelloFile] @ ?file # [laterFile]) testGenerator nodePosix
             defaultConfig
       = \<lparr> written = written (documentFiles testParse [setHelloFile] testGenerator nodePosix
                                  defaultConfig)
                       @ concat (map (emitEntry nodePosix)
                           (takeWhile ?ok [(routerSymbol, [helloBlock]), (twiceSymbol, [helloBlock])])),
           reported = reported (documentFiles testParse [setHelloFile] testGenerator nodePosix
                                  defaultConfig) @ [],
           thrown = Some (Error ''Too many @route tags'') \<rparr>"
    by blast
  have rep: "reported (documentFiles testParse [setHelloFile] testGenerator nodePosix defaultConfig)
             = []"
    by (simp add: document_defs route_fixture_defs)
  have d': "documentFiles testParse [setHelloFile, ?file, laterFile] testGenerator nodePosix
             defaultConfig
       = \<lparr> written = written (documentFiles testParse [setHelloFile] testGenerator nodePosix
                                  defaultConfig)
                       @ emitEntry nodePosix (routerSymbol, [helloBlock]),
           reported = [], thrown = Some (Error ''Too many @route tags'') \<rparr>"
    using d unfolding t rep by simp
  have f: "forEachChild testParse testFile testGenerator defaultConfig
       [CallNode helloCall [], CallNode adminCall []] []
     = ([], Inr [(routerSymbol, [helloBlock]), (twiceSymbol, [helloBlock])])"
    by (simp add: scan_defs route_fixture_defs)
  have r': "registrationsList testParse testFile testGenerator defaultConfig
       [CallNode helloCall [], CallNode adminCall []]
     = [(routerSymbol, helloBlock), (twiceSymbol, helloBlock)]"
    by (simp add: scan_defs route_fixture_defs)
  have g: "filter (\<lambda>w. take 5 w = [NL] @ ''### '')
         (written (documentFiles testParse [setHelloFile] testGenerator nodePosix defaultConfig)
          @ emitEntry nodePosix (routerSymbol, [helloBlock]))
       = [[NL] @ ''### Set hello message [POST]'' @ [NL], [NL] @ ''### Say hello [GET]'' @ [NL]]"
    by (simp add: document_defs route_fixture_defs emitEntry_def)
  have g': "filter (\<lambda>w. take 5 w = [NL] @ ''### '')
         (written (documentFiles testParse [setHelloFile, ?file, laterFile] testGenerator
            nodePosix defaultConfig))
       = [[NL] @ ''### Set hello message [POST]'' @ [NL], [NL] @ ''### Say hello [GET]'' @ [NL]]"
    unfolding d' using g by simp
  have t2: "map fst (sym_jsDocTags twiceSymbol) = [''route'', ''route'']"
    by (simp add: twiceSymbol_def)
  have t1: "map fst (sym_jsDocTags routerSymbol) = [''route'']"
    by (simp add: routerSymbol_def)
  show ?thesis
    by (intro conjI f r' t2 t1 h4 d' g')
qed

text \<open>
  C6 as stated fails: in a file where a route on a variable with two @route
  tags comes before a route on a well-documented variable, nothing at all is
  written, and a second file of the pass is not documented either.
\<close>

theorem too_many_route_tags_counterexample:
  "forEachChild testParse testFile testGenerator defaultConfig
       [CallNode adminCall [], CallNode helloCall []] []
     = ([], Inr [(twiceSymbol, [helloBlock]), (routerSymbol, [helloBlock])])
   \<and> map fst (sym_jsDocTags twiceSymbol) = [''route'', ''route'']
   \<and> map fst (sym_jsDocTags routerSymbol) = [''route'']
   \<and> documentSourceFile testParse
         (testFile\<lparr>sf_children := [CallNode adminCall [], CallNode helloCall []]\<rparr>)
         testGenerator nodePosix defaultConfig
       = \<lparr> written = [], reported = [], thrown = Some (Error ''Too many @route tags'') \<rparr>
   \<and> createDocumentation testParse
         [testFile\<lparr>sf_children := [CallNode adminCall [], CallNode helloCall []]\<rparr>, setHelloFile]
         (Some testGenerator) nodePosix defaultConfig
       = \<lparr> written = [], reported = [], thrown = Some (Error ''Too many @route tags'') \<rparr>"
  by (simp add: document_defs route_fixture_defs)

subsection \<open>Routers and receiver symbols\<close>

text \<open>
  What a file whose scan completes writes, from the registrations of the scan.
\<close>

lemma routers_of_scan:
  assumes "forEachChild parse sourceFile generator config (sf_children sourceFile) [] = (ds, Inr m)"
    and "regs = registrationsList parse sourceFile generator config (sf_children sourceFile)"
    and "ok = (\<lambda>e. length (filter (\<lambda>t. fst t \<noteq> []) (sym_jsDocTags (fst e))) \<le> 1)"
  shows "distinct (map fst m)
     \<and> (\<forall>symb routes. (symb, routes) \<in> set m
           \<longleftrightarrow> symb \<in> fst ` set regs \<and> routes = routesOf symb regs)
     \<and> written (documentSourceFile parse sourceFile generator rt config)
         = concat (map (emitEntry rt) (takeWhile ok m))
     \<and> ((\<forall>e\<in>set m. ok e) \<longrightarrow>
           written (documentSourceFile parse sourceFile generator rt config)
             = concat (map (emitEntry rt) m)
         \<and> thrown (documentSourceFile parse sourceFile generator rt config) = None)
     \<and> (\<forall>symb routes. (symb, routes) \<in> set m \<and> ok (symb, routes) \<longrightarrow>
           (\<exists>routerDoc. parseRouterDoc symb (groupByRoute routes) = Inr routerDoc
              \<and> emitEntry rt (symb, routes) = emit rt routerDoc
              \<and> rt_routes routerDoc
                  = map (\<lambda>p. \<lparr> g_path = p,
                               g_methods = filter (\<lambda>b. b_path b = p) (routesOf symb regs) \<rparr>)
                      (rev (remdups (rev (map b_path (routesOf symb regs)))))))"
proof -
  have m: "m = addRoutes [] regs"
    using scan_registrations(2)[OF assms(1)] assms(2) by simp
  have d: "distinct (map fst m)"
    unfolding m by (rule addRoutes_distinct) simp
  have entries: "(symb, routes) \<in> set m \<longleftrightarrow> symb \<in> fst ` set regs \<and> routes = routesOf symb regs"
    for symb routes
  proof -
    have "(symb, routes) \<in> set m \<longleftrightarrow> map_of m symb = Some routes"
      using d by simp
    also have "\<dots> \<longleftrightarrow> symb \<in> fst ` set regs \<and> routes = routesOf symb regs"
      unfolding m addRoutes_map_of by auto
    finally show ?thesis .
  qed
  have w: "written (documentSourceFile parse sourceFile generator rt config)
         = concat (map (emitEntry rt) (takeWhile ok m))"
    by (simp add: documentSourceFile_def assms(1) emitRouters_eq assms(3))
  have a: "(\<forall>e\<in>set m. ok e) \<longrightarrow>
           written (documentSourceFile parse sourceFile generator rt config)
             = concat (map (emitEntry rt) m)
         \<and> thrown (documentSourceFile parse sourceFile generator rt config) = None"
  proof
    assume all: "\<forall>e\<in>set m. ok e"
    then have t: "takeWhile ok m = m" by simp
    have "thrown (documentSourceFile parse sourceFile generator rt config) = None"
      using all by (simp add: documentSourceFile_def assms(1) emitRouters_eq assms(3))
    then show "written (documentSourceFile parse sourceFile generator rt config)
             = concat (map (emitEntry rt) m)
         \<and> thrown (documentSourceFile parse sourceFile generator rt config) = None"
      unfolding w t by simp
  qed
  have r: "\<exists>routerDoc. parseRouterDoc symb (groupByRoute routes) = Inr routerDoc
              \<and> emitEntry rt (symb, routes) = emit rt routerDoc
              \<and> rt_routes routerDoc
                  = map (\<lambda>p. \<lparr> g_path = p,
                               g_methods = filter (\<lambda>b. b_path b = p) (routesOf symb regs) \<rparr>)
                      (rev (remdups (rev (map b_path (routesOf symb regs)))))"
    if "(symb, routes) \<in> set m \<and> ok (symb, routes)" for symb routes
  proof -
    from that have mem: "(symb, routes) \<in> set m"
      and "length (filter (\<lambda>t. fst t \<noteq> []) (sym_jsDocTags symb)) \<le> 1"
      unfolding assms(3) by simp_all
    from parseRouterDoc_ok[OF this(2)] obtain routerDoc where
      p: "parseRouterDoc symb (groupByRoute routes) = Inr routerDoc" ..
    from mem have routes: "routes = routesOf symb regs" by (simp add: entries)
    have "rt_routes routerDoc = groupByRoute (routesOf symb regs)"
      using parseRouterDoc_routes[OF p] routes by simp
    then have "rt_routes routerDoc
                  = map (\<lambda>p. \<lparr> g_path = p,
                               g_methods = filter (\<lambda>b. b_path b = p) (routesOf symb regs) \<rparr>)
                      (rev (remdups (rev (map b_path (routesOf symb regs)))))"
      by (simp only: groupByRoute_eq)
    moreover have "emitEntry rt (symb, routes) = emit rt routerDoc"
      by (simp add: emitEntry_def p)
    ultimately show ?thesis using p by blast
  qed
  have e': "\<forall>symb routes. (symb, routes) \<in> set m
           \<longleftrightarrow> symb \<in> fst ` set regs \<and> routes = routesOf symb regs"
    using entries by blast
  have r': "\<forall>symb routes. (symb, routes) \<in> set m \<and> ok (symb, routes) \<longrightarrow>
           (\<exists>routerDoc. parseRouterDoc symb (groupByRoute routes) = Inr routerDoc
              \<and> emitEntry rt (symb, routes) = emit rt routerDoc
              \<and> rt_routes routerDoc
                  = map (\<lambda>p. \<lparr> g_path = p,
                               g_methods = filter (\<lambda>b. b_path b = p) (routesOf symb regs) \<rparr>)
                      (rev (remdups (rev (map b_path (routesOf symb regs))))))"
    by (intro allI impI) (rule r)
  show ?thesis
    by (rule conjI[OF d conjI[OF e' conjI[OF w conjI[OF a r']]]])
qed

text \<open>
  C1, as the code has it. When the scan of a file throws, nothing is written
  for the file. When it completes, the Map has one entry for each symbol
  through which a documented route was registered and no other entry, and the
  entry of a symbol holds exactly the Blocks registered through that symbol,
  in the order of the visit. The loop over the entries writes one Router for
  each entry up to the first symbol with more than one named tag, where it
  throws; with no such symbol it writes a Router for every entry and throws
  nothing. The Router of an entry has the Groups of the Blocks of its symbol:
  one Group for each registration path, in the order in which the paths first
  appear, with the Blocks registered through the symbol on that path in the
  order of the visit. So registrations are aggregated by the symbol of the
  receiver variable: the routing object the variable holds plays no part, and
  neither do the router-level path tags.
\<close>

theorem routers_grouped_by_symbol:
  assumes "regs = registrationsList parse sourceFile generator config (sf_children sourceFile)"
    and "ok = (\<lambda>e. length (filter (\<lambda>t. fst t \<noteq> []) (sym_jsDocTags (fst e))) \<le> 1)"
  shows "case snd (forEachChild parse sourceFile generator config (sf_children sourceFile) []) of
       Inl e \<Rightarrow>
         written (documentSourceFile parse sourceFile generator rt config) = []
         \<and> thrown (documentSourceFile parse sourceFile generator rt config) = Some e
     | Inr m \<Rightarrow>
         distinct (map fst m)
         \<and> (\<forall>symb routes. (symb, routes) \<in> set m
               \<longleftrightarrow> symb \<in> fst ` set regs \<and> routes = routesOf symb regs)
         \<and> written (documentSourceFile parse sourceFile generator rt config)
             = concat (map (emitEntry rt) (takeWhile ok m))
         \<and> ((\<forall>e\<in>set m. ok e) \<longrightarrow>
               written (documentSourceFile parse sourceFile generator rt config)
                 = concat (map (emitEntry rt) m)
             \<and> thrown (documentSourceFile parse sourceFile generator rt config) = None)
         \<and> (\<forall>symb routes. (symb, routes) \<in> set m \<and> ok (symb, routes) \<longrightarrow>
               (\<exists>routerDoc. parseRouterDoc symb (groupByRoute routes) = Inr routerDoc
                  \<and> emitEntry rt (symb, routes) = emit rt routerDoc
                  \<and> rt_routes routerDoc
                      = map (\<lambda>p. \<lparr> g_path = p,
                                   g_methods = filter (\<lambda>b. b_path b = p) (routesOf symb regs) \<rparr>)
                          (rev (remdups (rev (map b_path (routesOf symb regs)))))))"
proof (cases "forEachChild parse sourceFile generator config (sf_children sourceFile) []")
  case (Pair ds r)
  show ?thesis
  proof (cases r)
    case (Inl e)
    with Pair show ?thesis by (simp add: documentSourceFile_def)
  next
    case (Inr m)
    with Pair have scan:
      "forEachChild parse sourceFile generator config (sf_children sourceFile) [] = (ds, Inr m)"
      by simp
    show ?thesis
      unfolding scan snd_conv sum.case
      by (rule routers_of_scan[OF scan assms(1) assms(2)])
  qed
qed

text \<open>
  The theorem at a file with three routes on \<open>router\<close>, the second on a path of
  its own, and a route on \<open>alias\<close> before the third.
\<close>

theorem routers_grouped_by_symbol_witness:
  "forEachChild testParse testFile testGenerator defaultConfig
       [CallNode helloCall [], CallNode otherCall [], CallNode aliasCall [],
        CallNode setHelloCall []] []
     = ([], Inr [(routerSymbol, [helloBlock, otherBlock, setHelloBlock]),
                 (aliasSymbol, [setHelloBlock])])
   \<and> registrationsList testParse testFile testGenerator defaultConfig
       [CallNode helloCall [], CallNode otherCall [], CallNode aliasCall [],
        CallNode setHelloCall []]
     = [(routerSymbol, helloBlock), (routerSymbol, otherBlock), (aliasSymbol, setHelloBlock),
        (routerSymbol, setHelloBlock)]
   \<and> documentSourceFile testParse
        (testFile\<lparr>sf_children := [CallNode helloCall [], CallNode otherCall [],
                                    CallNode aliasCall [], CallNode setHelloCall []]\<rparr>)
        testGenerator nodePosix defaultConfig
       = \<lparr> written = emitEntry nodePosix (routerSymbol, [helloBlock, otherBlock, setHelloBlock])
                       @ emitEntry nodePosix (aliasSymbol, [setHelloBlock]),
           reported = [], thrown = None \<rparr>
   \<and> parseRouterDoc routerSymbol (groupByRoute [helloBlock, otherBlock, setHelloBlock])
       = Inr \<lparr> rt_path = ''/'', rt_title = ''Greetings'', rt_description = None,
               rt_routes = [\<lparr> g_path = ''/'', g_methods = [helloBlock, setHelloBlock] \<rparr>,
                            \<lparr> g_path = ''/other'', g_methods = [otherBlock] \<rparr>] \<rparr>
   \<and> filter (\<lambda>w. take 3 w = [NL] @ ''# '' \<or> take 5 w = [NL] @ ''### '')
         (written (documentSourceFile testParse
            (testFile\<lparr>sf_children := [CallNode helloCall [], CallNode otherCall [],
                                        CallNode aliasCall [], CallNode setHelloCall []]\<rparr>)
            testGenerator nodePosix defaultConfig))
       = [[NL] @ ''# Group Greetings'' @ [NL, NL],
          [NL] @ ''### Say hello [GET]'' @ [NL],
          [NL] @ ''### Set hello message [POST]'' @ [NL],
          [NL] @ ''### Say hello [GET]'' @ [NL],
          [NL] @ ''# Group Greetings'' @ [NL, NL],
          [NL] @ ''### Set hello message [POST]'' @ [NL]]"
proof -
  let ?nodes = "[CallNode helloCall [], CallNode otherCall [], CallNode aliasCall [],
                 CallNode setHelloCall []]"
  let ?file = "testFile\<lparr>sf_children := ?nodes\<rparr>"
  let ?ok = "\<lambda>e :: Symbol \<times> Block list.
               length (filter (\<lambda>t. fst t \<noteq> []) (sym_jsDocTags (fst e))) \<le> 1"
  let ?m = "[(routerSymbol, [helloBlock, otherBlock, setHelloBlock]),
             (aliasSymbol, [setHelloBlock])]"
  have f: "forEachChild testParse ?file testGenerator defaultConfig (sf_children ?file) []
     = ([], Inr ?m)"
    by (simp add: scan_defs alias_fixture_defs)
  have f': "forEachChild testParse testFile testGenerator defaultConfig ?nodes [] = ([], Inr ?m)"
    by (simp add: scan_defs alias_fixture_defs)
  have r: "registrationsList testParse testFile testGenerator defaultConfig ?nodes
     = [(routerSymbol, helloBlock), (routerSymbol, otherBlock), (aliasSymbol, setHelloBlock),
        (routerSymbol, setHelloBlock)]"
    by (simp add: scan_defs alias_fixture_defs)
  have allok: "\<forall>e\<in>set ?m. ?ok e"
    by (simp add: routerSymbol_def aliasSymbol_def)
  note scan = routers_grouped_by_symbol[where parse = testParse and sourceFile = ?file
      and generator = testGenerator and config = defaultConfig and rt = nodePosix
      and ok = ?ok, OF refl refl, unfolded f snd_conv sum.case]
  from scan allok
  have w: "written (documentSourceFile testParse ?file testGenerator nodePosix defaultConfig)
             = concat (map (emitEntry nodePosix) ?m)"
    and th: "thrown (documentSourceFile testParse ?file testGenerator nodePosix defaultConfig)
             = None"
    by blast+
  have rep: "reported (documentSourceFile testParse ?file testGenerator nodePosix defaultConfig)
             = []"
    unfolding documentSourceFile_def f by (simp split: prod.splits)
  have d: "documentSourceFile testParse ?file testGenerator nodePosix defaultConfig
       = \<lparr> written = emitEntry nodePosix (routerSymbol, [helloBlock, otherBlock, setHelloBlock])
                       @ emitEntry nodePosix (aliasSymbol, [setHelloBlock]),
           reported = [], thrown = None \<rparr>"
    using w th rep by (cases "documentSourceFile testParse ?file testGenerator nodePosix defaultConfig")
      simp
  have p: "parseRouterDoc routerSymbol (groupByRoute [helloBlock, otherBlock, setHelloBlock])
       = Inr \<lparr> rt_path = ''/'', rt_title = ''Greetings'', rt_description = None,
               rt_routes = [\<lparr> g_path = ''/'', g_methods = [helloBlock, setHelloBlock] \<rparr>,
                            \<lparr> g_path = ''/other'', g_methods = [otherBlock] \<rparr>] \<rparr>"
    by (simp add: parseRouterDoc_def groupByRoute_def addToGroups_def Let_def
        splitByFirstNewline_def alias_fixture_defs)
  have g: "filter (\<lambda>w. take 3 w = [NL] @ ''# '' \<or> take 5 w = [NL] @ ''### '')
         (emitEntry nodePosix (routerSymbol, [helloBlock, otherBlock, setHelloBlock])
          @ emitEntry nodePosix (aliasSymbol, [setHelloBlock]))
       = [[NL] @ ''# Group Greetings'' @ [NL, NL],
          [NL] @ ''### Say hello [GET]'' @ [NL],
          [NL] @ ''### Set hello message [POST]'' @ [NL],
          [NL] @ ''### Say hello [GET]'' @ [NL],
          [NL] @ ''# Group Greetings'' @ [NL, NL],
          [NL] @ ''### Set hello message [POST]'' @ [NL]]"
    by (simp add: document_defs alias_fixture_defs emitEntry_def)
  have g': "filter (\<lambda>w. take 3 w = [NL] @ ''# '' \<or> take 5 w = [NL] @ ''### '')
         (written (documentSourceFile testParse ?file testGenerator nodePosix defaultConfig))
       = [[NL] @ ''# Group Greetings'' @ [NL, NL],
          [NL] @ ''### Say hello [GET]'' @ [NL],
          [NL] @ ''### Set hello message [POST]'' @ [NL],
          [NL] @ ''### Say hello [GET]'' @ [NL],
          [NL] @ ''# Group Greetings'' @ [NL, NL],
          [NL] @ ''### Set hello message [POST]'' @ [NL]]"
    unfolding d using g by simp
  show ?thesis
    by (intro conjI f' r d p g')
qed

text \<open>
  C1 as stated fails in both halves. Two routes registered through two
  variables that hold the same routing object go to two entries, and two
  Routers are written; two routes registered through one variable that holds
  two different routing objects in turn go to one entry, and one Router is
  written.
\<close>

theorem routers_by_instance_counterexample:
  "ce_receiverObject helloCall = ce_receiverObject aliasCall
   \<and> ce_receiverSymbol helloCall = Some routerSymbol
   \<and> ce_receiverSymbol aliasCall = Some aliasSymbol
   \<and> forEachChild testParse testFile testGenerator defaultConfig
        [CallNode helloCall [], CallNode aliasCall []] []
      = ([], Inr [(routerSymbol, [helloBlock]), (aliasSymbol, [setHelloBlock])])
   \<and> filter (\<lambda>w. take 9 w = [NL] @ ''# Group '')
        (written (documentSourceFile testParse
           (testFile\<lparr>sf_children := [CallNode helloCall [], CallNode aliasCall []]\<rparr>)
           testGenerator nodePosix defaultConfig))
      = [[NL] @ ''# Group Greetings'' @ [NL, NL], [NL] @ ''# Group Greetings'' @ [NL, NL]]
   \<and> ce_receiverObject helloCall \<noteq> ce_receiverObject reassignedCall
   \<and> ce_receiverSymbol reassignedCall = Some routerSymbol
   \<and> forEachChild testParse testFile testGenerator defaultConfig
        [CallNode helloCall [], CallNode reassignedCall []] []
      = ([], Inr [(routerSymbol, [helloBlock, setHelloBlock])])
   \<and> filter (\<lambda>w. take 9 w = [NL] @ ''# Group '')
        (written (documentSourceFile testParse
           (testFile\<lparr>sf_children := [CallNode helloCall [], CallNode reassignedCall []]\<rparr>)
           testGenerator nodePosix defaultConfig))
      = [[NL] @ ''# Group Greetings'' @ [NL, NL]]"
  by (simp add: document_defs alias_fixture_defs)

end
